theory Spec2Isabelle
  imports Main
begin

section \<open>The credential lifecycle of the Google Drive MCP server\<close>

text \<open>
  The development embeds the authentication module (\<^verbatim>\<open>auth.ts\<close>: \<^verbatim>\<open>getAuthType\<close>,
  \<^verbatim>\<open>authenticateWithServiceAccount\<close>, \<^verbatim>\<open>loadOAuthCredentialsQuietly\<close>,
  \<^verbatim>\<open>loadCredentialsQuietly\<close>, \<^verbatim>\<open>authenticateWithTimeout\<close>,
  \<^verbatim>\<open>authenticateAndSaveCredentials\<close>, \<^verbatim>\<open>getValidCredentials\<close>, \<^verbatim>\<open>setupTokenRefresh\<close>)
  and the startup path of the server (\<^verbatim>\<open>ensureAuth\<close>, \<^verbatim>\<open>startServer\<close>).

  The code is effectful: it reads environment variables, the file system and the clock,
  talks to Google, writes the credential file, installs a process-wide default handle and
  may exit the process. All of this is one record, \<open>world\<close>, passed through every
  function and returned updated. What the outside decides (whether a refresh succeeds,
  when the interactive flow settles, whether the transport connects) is a field of the
  record that the code only reads. Every externally visible action is appended to the
  \<open>trace\<close>, so that "exactly one refresh attempt" or "no disk write" is a statement about
  the events a call appended.
\<close>

subsection \<open>Data\<close>

datatype AuthType = OAUTH | SERVICE_ACCOUNT

text \<open>
  The persisted credential record, as \<^verbatim>\<open>JSON.parse\<close> delivers it: every field may be
  absent (\<open>None\<close> is JavaScript's \<^verbatim>\<open>undefined\<close>). \<open>expiry_date\<close> is epoch milliseconds,
  taken to be a whole number when present; the tokens and the scope are strings.
\<close>

record credentials =
  access_token :: "string option"
  refresh_token :: "string option"
  expiry_date :: "int option"
  scope :: "string option"

definition emptyCredentials :: credentials where
  "emptyCredentials =
     \<lparr>access_token = None, refresh_token = None, expiry_date = None, scope = None\<rparr>"

text \<open>An \<^verbatim>\<open>OAuth2\<close> client object: the two constructor arguments and its credentials.\<close>

record oauth2_client =
  client_id :: "string option"
  client_secret :: "string option"
  client_credentials :: credentials

text \<open>
  A credential handle is either an OAuth2 client or a \<^verbatim>\<open>GoogleAuth\<close> object built from
  a key file path and the scopes. JavaScript's \<^verbatim>\<open>null\<close> is \<open>None\<close> of \<open>handle option\<close>.
\<close>

datatype handle = OAuth2 oauth2_client | GoogleAuth string "string list"

text \<open>
  The content of the credential file: content that cannot be read or that
  \<^verbatim>\<open>JSON.parse\<close> rejects (either throws inside the outer \<^verbatim>\<open>try\<close>), or the record it
  parses to. \<^verbatim>\<open>JSON.stringify\<close> followed by \<^verbatim>\<open>JSON.parse\<close> is taken to be the
  identity on records.
\<close>

datatype file_content = Unparseable | CredentialsJson credentials

text \<open>How the promise of the interactive flow settles.\<close>

datatype settlement = Resolved oauth2_client | Rejected

datatype error =
  MkdirError | WriteError | SyntaxError | RangeError | TypeError | RefreshError | ConnectError

datatype event =
    Log string
  | Mkdir
  | WriteFile credentials
  | RefreshAttempt oauth2_client
  | InteractiveAuth
  | SetDefaultAuth "handle option"
  | Connect
  | SetInterval nat
  | Exit int

record world =
  USE_SERVICE_ACCOUNT :: "string option"
  CLIENT_ID :: "string option"
  CLIENT_SECRET :: "string option"
  serviceAccountPath :: string
  sa_file_exists :: bool
  oauth_file :: "file_content option"
  mkdir_ok :: bool
  write_ok :: bool
  now :: int
  refresh_oracle :: "nat \<Rightarrow> oauth2_client \<Rightarrow> credentials option"
  auth_settles :: "(nat \<times> settlement) option"
  connect_ok :: bool
  default_auth :: "handle option"
  timers :: "nat list"
  exited :: "int option"
  trace :: "event list"

text \<open>
  \<^item> \<open>USE_SERVICE_ACCOUNT\<close>, \<open>CLIENT_ID\<close>, \<open>CLIENT_SECRET\<close>: \<^verbatim>\<open>process.env\<close>.
  \<^item> \<open>sa_file_exists\<close>: \<^verbatim>\<open>fs.existsSync(serviceAccountPath)\<close>.
  \<^item> \<open>oauth_file\<close>: the file at \<^verbatim>\<open>oauthCredentialsPath\<close>; \<open>None\<close> when it does not exist.
  \<^item> \<open>mkdir_ok\<close>: whether the credentials directory can be created when it is missing.
  \<^item> \<open>write_ok\<close>: whether writing the credential file succeeds rather than throws.
  \<^item> \<open>now\<close>: the clock, epoch milliseconds, as \<^verbatim>\<open>new Date()\<close> reads it.
  \<^item> \<open>refresh_oracle n c\<close>: what the \<open>n\<close>-th call of \<^verbatim>\<open>refreshAccessToken\<close> of the
    process answers for client \<open>c\<close>: the new credentials, or \<open>None\<close> when it throws.
  \<^item> \<open>auth_settles\<close>: after how many milliseconds the interactive flow settles and how;
    \<open>None\<close> when it never does.
  \<^item> \<open>connect_ok\<close>: whether \<^verbatim>\<open>server.connect\<close> returns rather than throws.
  \<^item> \<open>default_auth\<close>: the handle installed by \<^verbatim>\<open>google.options({ auth })\<close>.
  \<^item> \<open>timers\<close>: the intervals of the timers started with \<^verbatim>\<open>setInterval\<close>.
  \<^item> \<open>exited\<close>: the exit code once \<^verbatim>\<open>process.exit\<close> has been called.
\<close>

subsection \<open>Primitive effects\<close>

definition emit :: "event \<Rightarrow> world \<Rightarrow> world" where
  "emit e w = w\<lparr>trace := trace w @ [e]\<rparr>"

text \<open>\<^verbatim>\<open>console.error\<close>; only the fixed part of each message is recorded.\<close>

definition console_error :: "string \<Rightarrow> world \<Rightarrow> world" where
  "console_error msg w = emit (Log msg) w"

text \<open>
  \<^verbatim>\<open>fs.writeFileSync(oauthCredentialsPath, JSON.stringify(c, null, 2))\<close>: when the write
  succeeds the file holds the record; when it throws, the file is as it was.
\<close>

definition writeFileSync :: "credentials \<Rightarrow> world \<Rightarrow> (error \<times> world) + world" where
  "writeFileSync c w =
     (if write_ok w
      then Inr (emit (WriteFile c) (w\<lparr>oauth_file := Some (CredentialsJson c)\<rparr>))
      else Inl (WriteError, w))"

definition google_options :: "handle option \<Rightarrow> world \<Rightarrow> world" where
  "google_options a w = emit (SetDefaultAuth a) (w\<lparr>default_auth := a\<rparr>)"

definition process_exit :: "int \<Rightarrow> world \<Rightarrow> world" where
  "process_exit code w = emit (Exit code) (w\<lparr>exited := Some code\<rparr>)"

fun is_refresh :: "event \<Rightarrow> bool" where
  "is_refresh (RefreshAttempt c) = True"
| "is_refresh e = False"

fun is_write :: "event \<Rightarrow> bool" where
  "is_write (WriteFile c) = True"
| "is_write e = False"

definition refresh_count :: "event list \<Rightarrow> nat" where
  "refresh_count es = length (filter is_refresh es)"

definition write_count :: "event list \<Rightarrow> nat" where
  "write_count es = length (filter is_write es)"

definition interactive_count :: "event list \<Rightarrow> nat" where
  "interactive_count es = length (filter (\<lambda>e. e = InteractiveAuth) es)"

definition log_count :: "string \<Rightarrow> event list \<Rightarrow> nat" where
  "log_count msg es = length (filter (\<lambda>e. e = Log msg) es)"

text \<open>The events a computation from \<open>w\<close> to \<open>w'\<close> appended.\<close>

definition new_events :: "world \<Rightarrow> world \<Rightarrow> event list" where
  "new_events w w' = drop (length (trace w)) (trace w')"

text \<open>
  \<^verbatim>\<open>client.refreshAccessToken()\<close>: the call is recorded, and the answer is the
  oracle's for this call. \<open>Inl\<close> is the exception, with the world at the throw. On
  success the library has stored the credentials it returns in the client, so the client
  is returned as well; on failure the client is as it was.
\<close>

definition refresh_answer :: "world \<Rightarrow> oauth2_client \<Rightarrow> credentials option" where
  "refresh_answer w c = refresh_oracle w (refresh_count (trace w)) c"

definition refreshAccessToken ::
  "oauth2_client \<Rightarrow> world
     \<Rightarrow> (error \<times> world) + (credentials \<times> oauth2_client \<times> world)" where
  "refreshAccessToken c w =
     (case refresh_answer w c of
        None \<Rightarrow> Inl (RefreshError, emit (RefreshAttempt c) w)
      | Some newCreds \<Rightarrow>
          Inr (newCreds, c\<lparr>client_credentials := newCreds\<rparr>, emit (RefreshAttempt c) w))"

text \<open>
  \<^verbatim>\<open>new Date(v)\<close>: the time value, or \<open>None\<close> for an invalid date. A missing value
  and a value beyond 8.64e15 milliseconds from the epoch are invalid dates, and
  \<^verbatim>\<open>toISOString\<close> throws a \<^verbatim>\<open>RangeError\<close> on them.
\<close>

definition maxTimeValue :: int where
  "maxTimeValue = 8640000000000000"

definition newDate :: "int option \<Rightarrow> int option" where
  "newDate v =
     (case v of
        None \<Rightarrow> None
      | Some t \<Rightarrow> if \<bar>t\<bar> \<le> maxTimeValue then Some t else None)"

text \<open>JavaScript truthiness of an optional string: present and not empty.\<close>

definition truthy :: "string option \<Rightarrow> bool" where
  "truthy s = (case s of None \<Rightarrow> False | Some v \<Rightarrow> v \<noteq> [])"

subsection \<open>The authentication module\<close>

definition SCOPES :: "string list" where
  "SCOPES = [''https://www.googleapis.com/auth/drive.readonly'',
             ''https://www.googleapis.com/auth/spreadsheets'']"

text \<open>
  \<^verbatim>\<open>ensureCredsDirectory\<close>: \<^verbatim>\<open>mkdirSync\<close> with \<^verbatim>\<open>recursive: true\<close> succeeds on a
  directory that is already there, which is the case whenever the credential file exists
  in it; otherwise the environment decides. The failure is logged and thrown again.
\<close>

definition ensureCredsDirectory :: "world \<Rightarrow> (error \<times> world) + world" where
  "ensureCredsDirectory w =
     (if mkdir_ok w \<or> oauth_file w \<noteq> None
      then Inr (console_error ''Ensured credentials directory exists at:'' (emit Mkdir w))
      else Inl (MkdirError, console_error ''Failed to create credentials directory:'' w))"

definition defaultTimeoutMs :: nat where
  "defaultTimeoutMs = 30000"

text \<open>
  \<^verbatim>\<open>authenticateWithTimeout\<close>: the interactive flow, started by the call of
  \<^verbatim>\<open>authenticate\<close>, races a timer of \<open>timeoutMs\<close>. The flow wins when it settles
  strictly before the timer; a rejection and a timeout are both logged and give
  \<^verbatim>\<open>null\<close>.
\<close>

definition authenticateWithTimeout :: "nat \<Rightarrow> world \<Rightarrow> oauth2_client option \<times> world" where
  "authenticateWithTimeout timeoutMs w =
     (let w1 = emit InteractiveAuth w in
      case auth_settles w1 of
        None \<Rightarrow> (None, console_error ''Error: Authentication timed out'' w1)
      | Some (d, s) \<Rightarrow>
          if d < timeoutMs then
            (case s of
               Resolved c \<Rightarrow> (Some c, w1)
             | Rejected \<Rightarrow> (None, console_error ''Error'' w1))
          else (None, console_error ''Error: Authentication timed out'' w1))"

text \<open>
  The \<^verbatim>\<open>try\<close> block of \<^verbatim>\<open>authenticateAndSaveCredentials\<close>. On \<^verbatim>\<open>null\<close> the call
  \<^verbatim>\<open>auth.refreshAccessToken()\<close> is a \<^verbatim>\<open>TypeError\<close> before any refresh is attempted.
  The object \<^verbatim>\<open>newAuth\<close> that the source builds before the block is never used and is
  left out. An exception carries, besides the world, \<^verbatim>\<open>auth\<close> as it is at the throw:
  the \<^verbatim>\<open>catch\<close> returns it, and after a successful refresh it already holds the
  new credentials.
\<close>

definition authenticateAndSaveCredentials_try ::
  "oauth2_client option \<Rightarrow> world
     \<Rightarrow> (error \<times> oauth2_client option \<times> world) + (oauth2_client \<times> world)" where
  "authenticateAndSaveCredentials_try auth w =
     (case auth of
        None \<Rightarrow> Inl (TypeError, None, w)
      | Some c \<Rightarrow>
          (case refreshAccessToken c w of
             Inl (e, w1) \<Rightarrow> Inl (e, Some c, w1)
           | Inr (credentials, c1, w1) \<Rightarrow>
               (case ensureCredsDirectory
                       (console_error ''Received new credentials with scopes:'' w1) of
                  Inl (e, w2) \<Rightarrow> Inl (e, Some c1, w2)
                | Inr w2 \<Rightarrow>
                    (case writeFileSync credentials w2 of
                       Inl (e, w3) \<Rightarrow> Inl (e, Some c1, w3)
                     | Inr w3 \<Rightarrow>
                         Inr (c1\<lparr>client_credentials := credentials\<rparr>,
                              console_error
                                ''Credentials saved successfully with refresh token to:'' w3)))))"

definition authenticateAndSaveCredentials :: "world \<Rightarrow> handle option \<times> world" where
  "authenticateAndSaveCredentials w =
     (let w1 = console_error ''Using keyfile path:''
                 (console_error ''Using credentials path:''
                   (console_error ''Launching auth flow...'' w));
          (auth, w2) = authenticateWithTimeout defaultTimeoutMs w1
      in case authenticateAndSaveCredentials_try auth w2 of
           Inr (c, w3) \<Rightarrow> (Some (OAuth2 c), w3)
         | Inl (e, auth', w3) \<Rightarrow>
             (map_option OAuth2 auth',
              console_error ''Error refreshing token during initial auth:'' w3))"

definition getAuthType :: "world \<Rightarrow> AuthType" where
  "getAuthType w =
     (if USE_SERVICE_ACCOUNT w = Some ''true'' then SERVICE_ACCOUNT
      else if sa_file_exists w \<and> \<not> (oauth_file w \<noteq> None) then SERVICE_ACCOUNT
      else OAUTH)"

text \<open>
  \<^verbatim>\<open>authenticateWithServiceAccount\<close>: building the \<^verbatim>\<open>GoogleAuth\<close> object reads no
  file and is taken not to throw, so the \<^verbatim>\<open>catch\<close> of the source has no branch here.
\<close>

definition authenticateWithServiceAccount :: "world \<Rightarrow> handle option \<times> world" where
  "authenticateWithServiceAccount w =
     (let w1 = console_error ''Authenticating with service account from:'' w in
      if \<not> sa_file_exists w1
      then (None, console_error ''Service account file not found at:'' w1)
      else (Some (GoogleAuth (serviceAccountPath w1) SCOPES),
            console_error ''Service account authentication successful'' w1))"

definition fiveMinutes :: int where
  "fiveMinutes = 5 * 60 * 1000"

text \<open>The inner \<^verbatim>\<open>try\<close> block of \<^verbatim>\<open>loadOAuthCredentialsQuietly\<close> (refresh and save).\<close>

definition loadOAuthCredentialsQuietly_refresh ::
  "oauth2_client \<Rightarrow> world \<Rightarrow> (error \<times> world) + (oauth2_client \<times> world)" where
  "loadOAuthCredentialsQuietly_refresh oauth2Client w =
     (case refreshAccessToken oauth2Client w of
        Inl ew \<Rightarrow> Inl ew
      | Inr (newCreds, client, w1) \<Rightarrow>
          (case ensureCredsDirectory w1 of
             Inl ew \<Rightarrow> Inl ew
           | Inr w2 \<Rightarrow>
               (case writeFileSync newCreds w2 of
                  Inl ew \<Rightarrow> Inl ew
                | Inr w3 \<Rightarrow>
                    Inr (client\<lparr>client_credentials := newCreds\<rparr>,
                         console_error ''Token refreshed and saved successfully'' w3))))"

text \<open>
  The outer \<^verbatim>\<open>try\<close> block. Logging the expiry status calls \<^verbatim>\<open>toISOString\<close> on the
  expiry date, which throws when the date is invalid.
\<close>

definition loadOAuthCredentialsQuietly_try ::
  "oauth2_client \<Rightarrow> file_content \<Rightarrow> world \<Rightarrow> (error \<times> world) + (handle option \<times> world)" where
  "loadOAuthCredentialsQuietly_try oauth2Client content w =
     (case content of
        Unparseable \<Rightarrow> Inl (SyntaxError, w)
      | CredentialsJson savedCreds \<Rightarrow>
          (let w1 = console_error ''Loaded existing OAuth credentials with scopes:'' w;
               client = oauth2Client\<lparr>client_credentials := savedCreds\<rparr>
           in case newDate (expiry_date savedCreds) of
                None \<Rightarrow> Inl (RangeError, w1)
              | Some expiryDate \<Rightarrow>
                  (let timeToExpiry = expiryDate - now w1;
                       w2 = console_error ''Token expiry status:'' w1
                   in if timeToExpiry < fiveMinutes \<and> truthy (refresh_token savedCreds)
                      then
                        (case loadOAuthCredentialsQuietly_refresh client
                                (console_error
                                   ''Attempting to refresh token using refresh_token'' w2) of
                           Inl (e, w3) \<Rightarrow>
                             Inr (None, console_error ''Failed to refresh token:'' w3)
                         | Inr (c, w3) \<Rightarrow> Inr (Some (OAuth2 c), w3))
                      else Inr (Some (OAuth2 client), w2))))"

definition loadOAuthCredentialsQuietly :: "world \<Rightarrow> handle option \<times> world" where
  "loadOAuthCredentialsQuietly w =
     (let w1 = console_error ''Attempting to load OAuth credentials from:'' w;
          oauth2Client = \<lparr>client_id = CLIENT_ID w1, client_secret = CLIENT_SECRET w1,
                          client_credentials = emptyCredentials\<rparr>
      in case oauth_file w1 of
           None \<Rightarrow> (None, console_error ''No OAuth credentials file found'' w1)
         | Some content \<Rightarrow>
             (case loadOAuthCredentialsQuietly_try oauth2Client content w1 of
                Inl (e, w2) \<Rightarrow> (None, console_error ''Error loading OAuth credentials:'' w2)
              | Inr r \<Rightarrow> r))"

definition loadCredentialsQuietly :: "world \<Rightarrow> handle option \<times> world" where
  "loadCredentialsQuietly w =
     (let authType = getAuthType w;
          w1 = console_error ''Using auth type:'' w
      in if authType = SERVICE_ACCOUNT then authenticateWithServiceAccount w1
         else loadOAuthCredentialsQuietly w1)"

text \<open>The part of \<^verbatim>\<open>getValidCredentials\<close> after the quiet attempt.\<close>

definition getValidCredentials_fallback :: "world \<Rightarrow> handle option \<times> world" where
  "getValidCredentials_fallback w =
     (if getAuthType w = SERVICE_ACCOUNT
      then authenticateWithServiceAccount
             (console_error ''Retrying service account authentication'' w)
      else authenticateAndSaveCredentials w)"

definition getValidCredentials :: "bool \<Rightarrow> world \<Rightarrow> handle option \<times> world" where
  "getValidCredentials forceAuth w =
     (if \<not> forceAuth then
        (case loadCredentialsQuietly w of
           (Some quietAuth, w1) \<Rightarrow> (Some quietAuth, w1)
         | (None, w1) \<Rightarrow> getValidCredentials_fallback w1)
      else getValidCredentials_fallback w)"

definition refreshIntervalMs :: nat where
  "refreshIntervalMs = 45 * 60 * 1000"

text \<open>One run of the callback that \<^verbatim>\<open>setupTokenRefresh\<close> schedules.\<close>

definition tokenRefreshTick :: "world \<Rightarrow> world" where
  "tokenRefreshTick w =
     (case loadCredentialsQuietly (console_error ''Running scheduled token refresh check'' w) of
        (Some auth, w1) \<Rightarrow>
          console_error ''Completed scheduled token refresh'' (google_options (Some auth) w1)
      | (None, w1) \<Rightarrow> console_error ''Skipping token refresh - no valid credentials'' w1)"

definition setupTokenRefresh :: "world \<Rightarrow> world" where
  "setupTokenRefresh w =
     (let w1 = console_error ''Setting up automatic token refresh interval (45 minutes)'' w
      in emit (SetInterval refreshIntervalMs) (w1\<lparr>timers := timers w1 @ [refreshIntervalMs]\<rparr>))"

subsection \<open>Server startup\<close>

definition ensureAuth :: "world \<Rightarrow> handle option \<times> world" where
  "ensureAuth w =
     (case getValidCredentials False w of (auth, w1) \<Rightarrow> (auth, google_options auth w1))"

definition server_connect :: "world \<Rightarrow> (error \<times> world) + world" where
  "server_connect w =
     (if connect_ok w then Inr (emit Connect w) else Inl (ConnectError, emit Connect w))"

definition startServer_try :: "world \<Rightarrow> (error \<times> world) + world" where
  "startServer_try w =
     (let w1 = console_error ''Starting server'' w;
          authType = getAuthType w1;
          w2 = console_error ''Using authentication method:'' w1;
          (auth, w3) = ensureAuth w2
      in case server_connect w3 of
           Inl ew \<Rightarrow> Inl ew
         | Inr w4 \<Rightarrow> Inr (if authType = OAUTH then setupTokenRefresh w4 else w4))"

definition startServer :: "world \<Rightarrow> world" where
  "startServer w =
     (case startServer_try w of
        Inr w1 \<Rightarrow> w1
      | Inl (e, w1) \<Rightarrow> process_exit 1 (console_error ''Error starting server:'' w1))"

text \<open>
  The client \<^verbatim>\<open>loadOAuthCredentialsQuietly\<close> builds: \<^verbatim>\<open>CLIENT_ID\<close> and
  \<^verbatim>\<open>CLIENT_SECRET\<close> of the environment, carrying the given credentials.
\<close>

definition quietClient :: "world \<Rightarrow> credentials \<Rightarrow> oauth2_client" where
  "quietClient w sc =
     \<lparr>client_id = CLIENT_ID w, client_secret = CLIENT_SECRET w, client_credentials = sc\<rparr>"

text \<open>
  The interactive flow does not deliver a client: it never settles, settles after the
  default timeout, or rejects.
\<close>

definition interactive_fails :: "world \<Rightarrow> bool" where
  "interactive_fails w =
     (case auth_settles w of
        None \<Rightarrow> True
      | Some (d, s) \<Rightarrow> defaultTimeoutMs < d \<or> s = Rejected)"

text \<open>The timer of \<^verbatim>\<open>authenticateWithTimeout\<close> fires before the flow settles.\<close>

definition timed_out :: "world \<Rightarrow> bool" where
  "timed_out w = (case auth_settles w of None \<Rightarrow> True | Some (d, s) \<Rightarrow> defaultTimeoutMs \<le> d)"

text \<open>What \<^verbatim>\<open>authenticateAndSaveCredentials\<close> does before the race is decided.\<close>

definition auth_prefix :: "event list" where
  "auth_prefix = [Log ''Launching auth flow...'', Log ''Using credentials path:'',
                  Log ''Using keyfile path:'', InteractiveAuth]"

subsection \<open>Example states\<close>

definition emptyWorld :: world where
  "emptyWorld =
     \<lparr>USE_SERVICE_ACCOUNT = None, CLIENT_ID = None, CLIENT_SECRET = None,
      serviceAccountPath = ''service-account.json'', sa_file_exists = False,
      oauth_file = None, mkdir_ok = True, write_ok = True, now = 1700000000000,
      refresh_oracle = (\<lambda>n c. None), auth_settles = None, connect_ok = True,
      default_auth = None, timers = [], exited = None, trace = []\<rparr>"

text \<open>A stored record with the given refresh token and expiry date.\<close>

definition storedCreds :: "string option \<Rightarrow> int \<Rightarrow> credentials" where
  "storedCreds rt t =
     \<lparr>access_token = Some ''token'', refresh_token = rt, expiry_date = Some t,
      scope = Some ''drive''\<rparr>"

text \<open>The empty state with the credential file holding the given record.\<close>

definition worldWithFile :: "credentials \<Rightarrow> world" where
  "worldWithFile c = emptyWorld\<lparr>oauth_file := Some (CredentialsJson c)\<rparr>"

text \<open>The same, where every refresh succeeds with the second record.\<close>

definition refreshingWorld :: "credentials \<Rightarrow> credentials \<Rightarrow> world" where
  "refreshingWorld c nc = (worldWithFile c)\<lparr>refresh_oracle := (\<lambda>n cl. Some nc)\<rparr>"

text \<open>
  Stored records: about to expire (one minute after the clock of \<open>emptyWorld\<close>), good for
  another hour, already expired and without a refresh token, about to expire with an
  empty refresh token, and with expiry dates beyond the range of \<^verbatim>\<open>Date\<close>.
\<close>

definition expiringCreds :: credentials where
  "expiringCreds = storedCreds (Some ''r'') 1700000060000"

definition freshCreds :: credentials where
  "freshCreds = storedCreds (Some ''r'') 1700003600000"

definition staleCreds :: credentials where
  "staleCreds = storedCreds None 1699999999000"

definition emptyTokenCreds :: credentials where
  "emptyTokenCreds = storedCreds (Some []) 1700000060000"

definition farPastCreds :: credentials where
  "farPastCreds = storedCreds (Some ''r'') (- 10000000000000000)"

definition farPastNoTokenCreds :: credentials where
  "farPastNoTokenCreds = storedCreds None (- 10000000000000000)"

definition farFutureCreds :: credentials where
  "farFutureCreds = storedCreds (Some ''r'') 10000000000000000"

text \<open>
  The credential file about to expire and every refresh succeeding, but the file cannot
  be written.
\<close>

definition readOnlyWorld :: world where
  "readOnlyWorld = (refreshingWorld expiringCreds freshCreds)\<lparr>write_ok := False\<rparr>"

text \<open>A client as the interactive flow delivers it.\<close>

definition exampleClient :: oauth2_client where
  "exampleClient = \<lparr>client_id = Some ''id'', client_secret = Some ''secret'',
     client_credentials = storedCreds None 1700003600000\<rparr>"

text \<open>
  States without any file: service-account mode forced; the interactive flow rejecting
  after 100 ms, delivering a client after 45 s, and delivering one after 1 s.
\<close>

definition forcedWorld :: world where
  "forcedWorld = emptyWorld\<lparr>USE_SERVICE_ACCOUNT := Some ''true''\<rparr>"

definition rejectingWorld :: world where
  "rejectingWorld = emptyWorld\<lparr>auth_settles := Some (100, Rejected)\<rparr>"

definition slowAuthWorld :: world where
  "slowAuthWorld = emptyWorld\<lparr>auth_settles := Some (45000, Resolved exampleClient)\<rparr>"

definition promptAuthWorld :: world where
  "promptAuthWorld = emptyWorld\<lparr>auth_settles := Some (1000, Resolved exampleClient)\<rparr>"

section \<open>Basic facts\<close>

lemmas prim_defs = emit_def console_error_def writeFileSync_def google_options_def process_exit_def

lemmas example_defs = storedCreds_def worldWithFile_def refreshingWorld_def emptyWorld_def
  expiringCreds_def freshCreds_def staleCreds_def emptyTokenCreds_def farPastCreds_def
  farPastNoTokenCreds_def farFutureCreds_def forcedWorld_def rejectingWorld_def
  slowAuthWorld_def promptAuthWorld_def exampleClient_def readOnlyWorld_def

lemma new_events_append: "trace w' = trace w @ es \<Longrightarrow> new_events w w' = es"
  by (simp add: new_events_def)

lemma count_simps:
  "refresh_count [] = 0" "refresh_count (e # es) = (if is_refresh e then 1 else 0) + refresh_count es"
  "write_count [] = 0" "write_count (e # es) = (if is_write e then 1 else 0) + write_count es"
  by (simp_all add: refresh_count_def write_count_def)

section \<open>Mode selection\<close>

text \<open>
  C1. In every state, \<open>getAuthType\<close> answers \<open>SERVICE_ACCOUNT\<close> exactly when
  \<open>USE_SERVICE_ACCOUNT\<close> is the string \<open>true\<close>, or the service-account key file exists
  and the OAuth credential file does not; in every other state it answers \<open>OAUTH\<close>.
\<close>

theorem getAuthType_exactly:
  "(getAuthType w = SERVICE_ACCOUNT) =
     (USE_SERVICE_ACCOUNT w = Some ''true'' \<or> (sa_file_exists w \<and> oauth_file w = None))
   \<and> (getAuthType w = OAUTH) =
     (\<not> (USE_SERVICE_ACCOUNT w = Some ''true'' \<or> (sa_file_exists w \<and> oauth_file w = None)))"
  by (simp add: getAuthType_def)

text \<open>
  C2 (as amended). In every state in which the service-account key file does not exist
  and \<open>USE_SERVICE_ACCOUNT\<close> is not the string \<open>true\<close>, \<open>getAuthType\<close> answers \<open>OAUTH\<close>.
\<close>

theorem getAuthType_without_key_file:
  assumes "\<not> sa_file_exists w" and "USE_SERVICE_ACCOUNT w \<noteq> Some ''true''"
  shows "getAuthType w = OAUTH"
  using assms
  by (simp add: getAuthType_def)

theorem getAuthType_without_key_file_witness:
  "\<not> sa_file_exists emptyWorld \<and> USE_SERVICE_ACCOUNT emptyWorld \<noteq> Some ''true''
   \<and> getAuthType emptyWorld = OAUTH"
proof -
  have a: "\<not> sa_file_exists emptyWorld" by (simp add: emptyWorld_def)
  have b: "USE_SERVICE_ACCOUNT emptyWorld \<noteq> Some ''true''" by (simp add: emptyWorld_def)
  from getAuthType_without_key_file [OF a b] a b show ?thesis by simp
qed

text \<open>
  C2 as stated fails: with \<open>USE_SERVICE_ACCOUNT=true\<close> the first guard of \<open>getAuthType\<close>
  answers \<open>SERVICE_ACCOUNT\<close> before any file is looked at, also when there is no key file.
\<close>

theorem getAuthType_forced_without_key_file:
  "\<not> sa_file_exists forcedWorld \<and> USE_SERVICE_ACCOUNT forcedWorld = Some ''true''
   \<and> getAuthType forcedWorld = SERVICE_ACCOUNT"
  by (simp add: getAuthType_def forcedWorld_def emptyWorld_def)

section \<open>The quiet OAuth load\<close>

subsection \<open>The paths of \<open>loadOAuthCredentialsQuietly\<close>\<close>

text \<open>
  Each lemma gives the result and the final state of one path through the function. A
  failing write is one of them. A failing \<^verbatim>\<open>mkdirSync\<close> is not: the refresh is only
  reached when the file exists.
\<close>

lemma load_no_file:
  assumes "oauth_file w = None"
  shows "loadOAuthCredentialsQuietly w =
    (None, w\<lparr>trace := trace w @ [Log ''Attempting to load OAuth credentials from:'',
                                  Log ''No OAuth credentials file found'']\<rparr>)"
  using assms by (simp add: loadOAuthCredentialsQuietly_def prim_defs Let_def)

lemma load_unparseable:
  assumes "oauth_file w = Some Unparseable"
  shows "loadOAuthCredentialsQuietly w =
    (None, w\<lparr>trace := trace w @ [Log ''Attempting to load OAuth credentials from:'',
                                  Log ''Error loading OAuth credentials:'']\<rparr>)"
  using assms
  by (simp add: loadOAuthCredentialsQuietly_def loadOAuthCredentialsQuietly_try_def prim_defs Let_def)

lemma load_invalid_date:
  assumes "oauth_file w = Some (CredentialsJson sc)" and "newDate (expiry_date sc) = None"
  shows "loadOAuthCredentialsQuietly w =
    (None, w\<lparr>trace := trace w @ [Log ''Attempting to load OAuth credentials from:'',
                                  Log ''Loaded existing OAuth credentials with scopes:'',
                                  Log ''Error loading OAuth credentials:'']\<rparr>)"
  using assms
  by (simp add: loadOAuthCredentialsQuietly_def loadOAuthCredentialsQuietly_try_def prim_defs Let_def)

lemma load_as_is:
  assumes "oauth_file w = Some (CredentialsJson sc)" and "newDate (expiry_date sc) = Some t"
    and "\<not> (t - now w < fiveMinutes \<and> truthy (refresh_token sc))"
  shows "loadOAuthCredentialsQuietly w =
    (Some (OAuth2 (quietClient w sc)),
     w\<lparr>trace := trace w @ [Log ''Attempting to load OAuth credentials from:'',
                            Log ''Loaded existing OAuth credentials with scopes:'',
                            Log ''Token expiry status:'']\<rparr>)"
  using assms
  by (auto simp add: loadOAuthCredentialsQuietly_def loadOAuthCredentialsQuietly_try_def prim_defs Let_def quietClient_def)

lemma load_refresh_failed:
  assumes "oauth_file w = Some (CredentialsJson sc)" and "newDate (expiry_date sc) = Some t"
    and "t - now w < fiveMinutes" and "truthy (refresh_token sc)"
    and "refresh_answer w (quietClient w sc) = None"
  shows "loadOAuthCredentialsQuietly w =
    (None,
     w\<lparr>trace := trace w @ [Log ''Attempting to load OAuth credentials from:'',
                            Log ''Loaded existing OAuth credentials with scopes:'',
                            Log ''Token expiry status:'',
                            Log ''Attempting to refresh token using refresh_token'',
                            RefreshAttempt (quietClient w sc),
                            Log ''Failed to refresh token:'']\<rparr>)"
  using assms
  by (simp add: loadOAuthCredentialsQuietly_def loadOAuthCredentialsQuietly_try_def
      loadOAuthCredentialsQuietly_refresh_def refreshAccessToken_def quietClient_def Let_def
      prim_defs refresh_answer_def refresh_count_def)

lemma load_write_failed:
  assumes "oauth_file w = Some (CredentialsJson sc)" and "newDate (expiry_date sc) = Some t"
    and "t - now w < fiveMinutes" and "truthy (refresh_token sc)"
    and "refresh_answer w (quietClient w sc) = Some nc" and "\<not> write_ok w"
  shows "loadOAuthCredentialsQuietly w =
    (None,
     w\<lparr>trace := trace w @ [Log ''Attempting to load OAuth credentials from:'',
                            Log ''Loaded existing OAuth credentials with scopes:'',
                            Log ''Token expiry status:'',
                            Log ''Attempting to refresh token using refresh_token'',
                            RefreshAttempt (quietClient w sc),
                            Mkdir,
                            Log ''Ensured credentials directory exists at:'',
                            Log ''Failed to refresh token:'']\<rparr>)"
  using assms
  by (simp add: loadOAuthCredentialsQuietly_def loadOAuthCredentialsQuietly_try_def
      loadOAuthCredentialsQuietly_refresh_def refreshAccessToken_def quietClient_def Let_def
      ensureCredsDirectory_def prim_defs refresh_answer_def refresh_count_def)

lemma load_refreshed:
  assumes "oauth_file w = Some (CredentialsJson sc)" and "newDate (expiry_date sc) = Some t"
    and "t - now w < fiveMinutes" and "truthy (refresh_token sc)"
    and "refresh_answer w (quietClient w sc) = Some nc" and "write_ok w"
  shows "loadOAuthCredentialsQuietly w =
    (Some (OAuth2 (quietClient w nc)),
     w\<lparr>oauth_file := Some (CredentialsJson nc),
       trace := trace w @ [Log ''Attempting to load OAuth credentials from:'',
                            Log ''Loaded existing OAuth credentials with scopes:'',
                            Log ''Token expiry status:'',
                            Log ''Attempting to refresh token using refresh_token'',
                            RefreshAttempt (quietClient w sc),
                            Mkdir,
                            Log ''Ensured credentials directory exists at:'',
                            WriteFile nc,
                            Log ''Token refreshed and saved successfully'']\<rparr>)"
  using assms
  by (simp add: loadOAuthCredentialsQuietly_def loadOAuthCredentialsQuietly_try_def
      loadOAuthCredentialsQuietly_refresh_def refreshAccessToken_def quietClient_def Let_def
      ensureCredsDirectory_def prim_defs refresh_answer_def refresh_count_def)

lemma load_cases:
  obtains
    (no_file) "oauth_file w = None"
  | (unparseable) "oauth_file w = Some Unparseable"
  | (invalid_date) sc where "oauth_file w = Some (CredentialsJson sc)"
      "newDate (expiry_date sc) = None"
  | (as_is) sc t where "oauth_file w = Some (CredentialsJson sc)"
      "newDate (expiry_date sc) = Some t"
      "\<not> (t - now w < fiveMinutes \<and> truthy (refresh_token sc))"
  | (refresh_failed) sc t where "oauth_file w = Some (CredentialsJson sc)"
      "newDate (expiry_date sc) = Some t" "t - now w < fiveMinutes"
      "truthy (refresh_token sc)" "refresh_answer w (quietClient w sc) = None"
  | (write_failed) sc t nc where "oauth_file w = Some (CredentialsJson sc)"
      "newDate (expiry_date sc) = Some t" "t - now w < fiveMinutes"
      "truthy (refresh_token sc)" "refresh_answer w (quietClient w sc) = Some nc"
      "\<not> write_ok w"
  | (refreshed) sc t nc where "oauth_file w = Some (CredentialsJson sc)"
      "newDate (expiry_date sc) = Some t" "t - now w < fiveMinutes"
      "truthy (refresh_token sc)" "refresh_answer w (quietClient w sc) = Some nc"
      "write_ok w"
proof (cases "oauth_file w")
  case None
  then show ?thesis by (rule no_file)
next
  case (Some content)
  show ?thesis
  proof (cases content)
    case Unparseable
    with Some show ?thesis by (simp add: unparseable)
  next
    case (CredentialsJson sc)
    with Some have cfile: "oauth_file w = Some (CredentialsJson sc)" by simp
    show ?thesis
    proof (cases "newDate (expiry_date sc)")
      case None
      with cfile show ?thesis by (rule invalid_date)
    next
      case (Some t)
      note date = this
      show ?thesis
      proof (cases "t - now w < fiveMinutes \<and> truthy (refresh_token sc)")
        case False
        with cfile date show ?thesis by (rule as_is)
      next
        case True
        then have e: "t - now w < fiveMinutes" and r: "truthy (refresh_token sc)" by simp_all
        show ?thesis
        proof (cases "refresh_answer w (quietClient w sc)")
          case None
          with cfile date e r show ?thesis by (rule refresh_failed)
        next
          case (Some nc)
          show ?thesis
          proof (cases "write_ok w")
            case True
            with cfile date e r Some show ?thesis by (rule refreshed)
          next
            case False
            with cfile date e r Some show ?thesis by (rule write_failed)
          qed
        qed
      qed
    qed
  qed
qed

subsection \<open>Expiring credentials with a refresh token\<close>

text \<open>
  C3 (as amended). If the credential file holds a record whose \<open>expiry_date\<close> is a valid
  date (at most 8.64e15 ms from the epoch) less than 5 minutes (300000 ms) in the future
  and whose \<open>refresh_token\<close> is a non-empty string, then \<open>loadOAuthCredentialsQuietly\<close>
  performs exactly one refresh attempt; when that refresh succeeds and the credential
  file can be written, it writes the file once, the file then holds the refreshed record,
  and the handle returned carries the refreshed credentials.
\<close>

theorem loadOAuthCredentialsQuietly_refreshes_expiring:
  assumes cfile: "oauth_file w = Some (CredentialsJson sc)"
    and "expiry_date sc = Some t" and "\<bar>t\<bar> \<le> maxTimeValue"
    and "t - now w < 300000"
    and "refresh_token sc = Some rt" and "rt \<noteq> []"
  shows "refresh_count (new_events w (snd (loadOAuthCredentialsQuietly w))) = 1
    \<and> (\<forall>nc. refresh_answer w (quietClient w sc) = Some nc \<and> write_ok w \<longrightarrow>
          write_count (new_events w (snd (loadOAuthCredentialsQuietly w))) = 1
        \<and> oauth_file (snd (loadOAuthCredentialsQuietly w)) = Some (CredentialsJson nc)
        \<and> fst (loadOAuthCredentialsQuietly w) = Some (OAuth2 (quietClient w nc)))"
proof -
  have d: "newDate (expiry_date sc) = Some t" using assms by (simp add: newDate_def)
  have e: "t - now w < fiveMinutes" using assms by (simp add: fiveMinutes_def)
  have r: "truthy (refresh_token sc)" using assms by (simp add: truthy_def)
  show ?thesis
  proof (cases "refresh_answer w (quietClient w sc)")
    case None
    show ?thesis
      by (simp add: load_refresh_failed [OF cfile d e r None] None new_events_append count_simps)
  next
    case (Some nc)
    show ?thesis
    proof (cases "write_ok w")
      case True
      show ?thesis
        by (simp add: load_refreshed [OF cfile d e r Some True] Some new_events_append
            count_simps)
    next
      case False
      show ?thesis
        by (simp add: load_write_failed [OF cfile d e r Some False] False new_events_append
            count_simps)
    qed
  qed
qed

theorem loadOAuthCredentialsQuietly_refreshes_expiring_witness:
  "oauth_file (refreshingWorld expiringCreds freshCreds)
     = Some (CredentialsJson expiringCreds)
   \<and> expiry_date expiringCreds = Some 1700000060000
   \<and> \<bar>1700000060000\<bar> \<le> maxTimeValue
   \<and> 1700000060000 - now (refreshingWorld expiringCreds freshCreds) < 300000
   \<and> refresh_token expiringCreds = Some ''r'' \<and> ''r'' \<noteq> []
   \<and> refresh_answer (refreshingWorld expiringCreds freshCreds)
        (quietClient (refreshingWorld expiringCreds freshCreds) expiringCreds) = Some freshCreds
   \<and> write_ok (refreshingWorld expiringCreds freshCreds)
   \<and> refresh_count (new_events (refreshingWorld expiringCreds freshCreds)
         (snd (loadOAuthCredentialsQuietly (refreshingWorld expiringCreds freshCreds)))) = 1
   \<and> oauth_file (snd (loadOAuthCredentialsQuietly (refreshingWorld expiringCreds freshCreds)))
       = Some (CredentialsJson freshCreds)
   \<and> fst (loadOAuthCredentialsQuietly (refreshingWorld expiringCreds freshCreds))
       = Some (OAuth2 \<lparr>client_id = None, client_secret = None,
                         client_credentials = freshCreds\<rparr>)"
proof -
  define sc where "sc = expiringCreds"
  define nc where "nc = freshCreds"
  define w where "w = refreshingWorld sc nc"
  have h1: "oauth_file w = Some (CredentialsJson sc)" by (simp add: w_def example_defs)
  have h2: "expiry_date sc = Some 1700000060000" by (simp add: sc_def example_defs)
  have h3: "\<bar>1700000060000\<bar> \<le> maxTimeValue" by (simp add: maxTimeValue_def)
  have h4: "1700000060000 - now w < 300000" by (simp add: w_def example_defs)
  have h5: "refresh_token sc = Some ''r''" by (simp add: sc_def example_defs)
  have h6: "''r'' \<noteq> []" by simp
  have ans: "refresh_answer w (quietClient w sc) = Some nc"
    by (simp add: refresh_answer_def w_def refreshingWorld_def)
  have wr: "write_ok w" by (simp add: w_def example_defs)
  have q: "quietClient w nc = \<lparr>client_id = None, client_secret = None, client_credentials = nc\<rparr>"
    by (simp add: quietClient_def w_def example_defs)
  from loadOAuthCredentialsQuietly_refreshes_expiring [OF h1 h2 h3 h4 h5 h6] ans wr
  have "refresh_count (new_events w (snd (loadOAuthCredentialsQuietly w))) = 1"
    "oauth_file (snd (loadOAuthCredentialsQuietly w)) = Some (CredentialsJson nc)"
    "fst (loadOAuthCredentialsQuietly w) = Some (OAuth2 (quietClient w nc))"
    by blast+
  with ans wr q h1 h2 h3 h4 h5 h6
  show ?thesis unfolding sc_def nc_def w_def by simp
qed

text \<open>
  C3 as stated fails in three ways, each at a record that is less than 5 minutes from
  expiry and contains a refresh token. For the expiry date \<open>-1e16\<close> the date is invalid,
  logging the expiry status throws, and the function returns \<^verbatim>\<open>null\<close> without any
  refresh attempt. For the empty string as refresh token the guard
  \<^verbatim>\<open>savedCreds.refresh_token\<close> is falsy and no refresh is attempted either. When the
  refresh succeeds but the credential file cannot be written, the inner \<^verbatim>\<open>catch\<close>
  returns \<^verbatim>\<open>null\<close> and the file keeps the old record.
\<close>

theorem loadOAuthCredentialsQuietly_expiring_not_refreshed:
  "oauth_file (refreshingWorld farPastCreds freshCreds) = Some (CredentialsJson farPastCreds)
   \<and> expiry_date farPastCreds = Some (- 10000000000000000)
   \<and> refresh_token farPastCreds = Some ''r''
   \<and> - 10000000000000000 - now (refreshingWorld farPastCreds freshCreds) < 300000
   \<and> refresh_count (new_events (refreshingWorld farPastCreds freshCreds)
         (snd (loadOAuthCredentialsQuietly (refreshingWorld farPastCreds freshCreds)))) = 0
   \<and> fst (loadOAuthCredentialsQuietly (refreshingWorld farPastCreds freshCreds)) = None
   \<and> oauth_file (refreshingWorld emptyTokenCreds freshCreds)
       = Some (CredentialsJson emptyTokenCreds)
   \<and> expiry_date emptyTokenCreds = Some 1700000060000
   \<and> refresh_token emptyTokenCreds = Some []
   \<and> 1700000060000 - now (refreshingWorld emptyTokenCreds freshCreds) < 300000
   \<and> refresh_count (new_events (refreshingWorld emptyTokenCreds freshCreds)
         (snd (loadOAuthCredentialsQuietly (refreshingWorld emptyTokenCreds freshCreds)))) = 0
   \<and> oauth_file readOnlyWorld = Some (CredentialsJson expiringCreds)
   \<and> expiry_date expiringCreds = Some 1700000060000
   \<and> refresh_token expiringCreds = Some ''r''
   \<and> 1700000060000 - now readOnlyWorld < 300000
   \<and> refresh_answer readOnlyWorld (quietClient readOnlyWorld expiringCreds) = Some freshCreds
   \<and> fst (loadOAuthCredentialsQuietly readOnlyWorld) = None
   \<and> oauth_file (snd (loadOAuthCredentialsQuietly readOnlyWorld))
       = Some (CredentialsJson expiringCreds)"
proof -
  define w where "w = refreshingWorld farPastCreds freshCreds"
  define w' where "w' = refreshingWorld emptyTokenCreds freshCreds"
  have r1: "oauth_file readOnlyWorld = Some (CredentialsJson expiringCreds)"
    by (simp add: example_defs)
  have r2: "newDate (expiry_date expiringCreds) = Some 1700000060000"
    by (simp add: example_defs newDate_def maxTimeValue_def)
  have r3: "1700000060000 - now readOnlyWorld < fiveMinutes"
    by (simp add: example_defs fiveMinutes_def)
  have r4: "truthy (refresh_token expiringCreds)" by (simp add: example_defs truthy_def)
  have r5: "refresh_answer readOnlyWorld (quietClient readOnlyWorld expiringCreds) = Some freshCreds"
    by (simp add: refresh_answer_def readOnlyWorld_def refreshingWorld_def)
  have r6: "\<not> write_ok readOnlyWorld" by (simp add: example_defs)
  have ro: "fst (loadOAuthCredentialsQuietly readOnlyWorld) = None"
    "oauth_file (snd (loadOAuthCredentialsQuietly readOnlyWorld))
       = Some (CredentialsJson expiringCreds)"
    by (simp_all add: load_write_failed [OF r1 r2 r3 r4 r5 r6] r1)
  have r7: "1700000060000 - now readOnlyWorld < 300000"
    "expiry_date expiringCreds = Some 1700000060000"
    "refresh_token expiringCreds = Some ''r''"
    by (simp_all add: example_defs)
  have h1: "oauth_file w = Some (CredentialsJson farPastCreds)"
    by (simp add: w_def example_defs)
  have d: "newDate (expiry_date farPastCreds) = None"
    by (simp add: example_defs newDate_def maxTimeValue_def)
  have h1': "oauth_file w' = Some (CredentialsJson emptyTokenCreds)"
    by (simp add: w'_def example_defs)
  have d': "newDate (expiry_date emptyTokenCreds) = Some 1700000060000"
    by (simp add: example_defs newDate_def maxTimeValue_def)
  have n': "\<not> (1700000060000 - now w' < fiveMinutes \<and> truthy (refresh_token emptyTokenCreds))"
    by (simp add: example_defs truthy_def)
  have "refresh_count (new_events w (snd (loadOAuthCredentialsQuietly w))) = 0"
    and "fst (loadOAuthCredentialsQuietly w) = None"
    by (simp_all add: load_invalid_date [OF h1 d] new_events_append count_simps)
  moreover have "refresh_count (new_events w' (snd (loadOAuthCredentialsQuietly w'))) = 0"
    by (simp add: load_as_is [OF h1' d' n'] new_events_append count_simps)
  moreover have "- 10000000000000000 - now w < 300000" "1700000060000 - now w' < 300000"
    by (simp_all add: w_def w'_def example_defs)
  moreover have "expiry_date farPastCreds = Some (- 10000000000000000)"
    "refresh_token farPastCreds = Some ''r''"
    "expiry_date emptyTokenCreds = Some 1700000060000"
    "refresh_token emptyTokenCreds = Some []"
    by (simp_all add: example_defs)
  ultimately show ?thesis using h1 h1' r1 r5 r7 ro unfolding w_def w'_def by simp
qed

text \<open>
  C4. If \<open>loadOAuthCredentialsQuietly\<close> attempts a refresh and the refresh fails, it
  returns \<^verbatim>\<open>null\<close>, the credential file is unchanged and nothing was written.
\<close>

theorem loadOAuthCredentialsQuietly_refresh_failure:
  assumes att: "RefreshAttempt c \<in> set (new_events w (snd (loadOAuthCredentialsQuietly w)))"
    and fails: "refresh_answer w c = None"
  shows "fst (loadOAuthCredentialsQuietly w) = None
    \<and> oauth_file (snd (loadOAuthCredentialsQuietly w)) = oauth_file w
    \<and> write_count (new_events w (snd (loadOAuthCredentialsQuietly w))) = 0"
proof (cases rule: load_cases [of w])
  case no_file
  with att show ?thesis by (simp add: load_no_file new_events_append)
next
  case unparseable
  with att show ?thesis by (simp add: load_unparseable new_events_append)
next
  case (invalid_date sc)
  with att show ?thesis by (simp add: load_invalid_date new_events_append)
next
  case (as_is sc t)
  with att show ?thesis by (simp add: load_as_is new_events_append)
next
  case (refresh_failed sc t)
  then show ?thesis by (simp add: load_refresh_failed new_events_append count_simps)
next
  case (refreshed sc t nc)
  with att fails show ?thesis by (simp add: load_refreshed new_events_append)
next
  case (write_failed sc t nc)
  with att fails show ?thesis by (simp add: load_write_failed new_events_append)
qed

theorem loadOAuthCredentialsQuietly_refresh_failure_witness:
  "RefreshAttempt \<lparr>client_id = None, client_secret = None,
                    client_credentials = expiringCreds\<rparr>
     \<in> set (new_events (worldWithFile expiringCreds)
         (snd (loadOAuthCredentialsQuietly (worldWithFile expiringCreds))))
   \<and> refresh_answer (worldWithFile expiringCreds)
        \<lparr>client_id = None, client_secret = None,
         client_credentials = expiringCreds\<rparr> = None
   \<and> fst (loadOAuthCredentialsQuietly (worldWithFile expiringCreds)) = None
   \<and> oauth_file (snd (loadOAuthCredentialsQuietly (worldWithFile expiringCreds)))
       = Some (CredentialsJson expiringCreds)
   \<and> write_count (new_events (worldWithFile expiringCreds)
         (snd (loadOAuthCredentialsQuietly (worldWithFile expiringCreds)))) = 0"
proof -
  define sc where "sc = expiringCreds"
  define w where "w = worldWithFile sc"
  define c where "c = \<lparr>client_id = None, client_secret = None, client_credentials = sc\<rparr>"
  have q: "quietClient w sc = c" by (simp add: quietClient_def c_def w_def example_defs)
  have h1: "oauth_file w = Some (CredentialsJson sc)" by (simp add: w_def example_defs)
  have d: "newDate (expiry_date sc) = Some 1700000060000"
    by (simp add: sc_def example_defs newDate_def maxTimeValue_def)
  have e: "1700000060000 - now w < fiveMinutes" by (simp add: w_def example_defs fiveMinutes_def)
  have r: "truthy (refresh_token sc)" by (simp add: sc_def example_defs truthy_def)
  have ans: "refresh_answer w c = None" by (simp add: refresh_answer_def w_def example_defs)
  then have ans': "refresh_answer w (quietClient w sc) = None" by (simp add: q)
  have att: "RefreshAttempt c \<in> set (new_events w (snd (loadOAuthCredentialsQuietly w)))"
    by (simp add: load_refresh_failed [OF h1 d e r ans'] new_events_append q)
  from loadOAuthCredentialsQuietly_refresh_failure [OF att ans] att ans h1
  show ?thesis unfolding sc_def w_def c_def by simp
qed

subsection \<open>Credentials used as they are\<close>

text \<open>
  C9 (as amended). For every stored record whose \<open>expiry_date\<close> is a valid date (at most
  8.64e15 ms from the epoch) more than 5 minutes in the future,
  \<open>loadOAuthCredentialsQuietly\<close> attempts no refresh, writes nothing and returns a handle
  built from the stored record; a second call, at any later clock reading at which the
  record is still more than 5 minutes from expiry, returns a handle with the same
  credentials, and still nothing has been written.
\<close>

theorem loadOAuthCredentialsQuietly_valid_untouched:
  assumes cfile: "oauth_file w = Some (CredentialsJson sc)"
    and "expiry_date sc = Some t" and "\<bar>t\<bar> \<le> maxTimeValue"
    and first: "300000 < t - now w"
    and second: "300000 < t - later"
  shows "fst (loadOAuthCredentialsQuietly w) = Some (OAuth2 (quietClient w sc))
    \<and> refresh_count (new_events w (snd (loadOAuthCredentialsQuietly w))) = 0
    \<and> write_count (new_events w (snd (loadOAuthCredentialsQuietly w))) = 0
    \<and> oauth_file (snd (loadOAuthCredentialsQuietly w)) = oauth_file w
    \<and> fst (loadOAuthCredentialsQuietly (snd (loadOAuthCredentialsQuietly w)\<lparr>now := later\<rparr>))
        = fst (loadOAuthCredentialsQuietly w)
    \<and> refresh_count (new_events w
          (snd (loadOAuthCredentialsQuietly (snd (loadOAuthCredentialsQuietly w)\<lparr>now := later\<rparr>)))) = 0
    \<and> write_count (new_events w
          (snd (loadOAuthCredentialsQuietly (snd (loadOAuthCredentialsQuietly w)\<lparr>now := later\<rparr>)))) = 0
    \<and> oauth_file (snd (loadOAuthCredentialsQuietly (snd (loadOAuthCredentialsQuietly w)\<lparr>now := later\<rparr>)))
        = oauth_file w"
proof -
  have d: "newDate (expiry_date sc) = Some t" using assms by (simp add: newDate_def)
  have n: "\<not> (t - now w < fiveMinutes \<and> truthy (refresh_token sc))"
    using first by (simp add: fiveMinutes_def)
  note one = load_as_is [OF cfile d n]
  define w1 where "w1 = snd (loadOAuthCredentialsQuietly w)\<lparr>now := later\<rparr>"
  have file1: "oauth_file w1 = Some (CredentialsJson sc)"
    using cfile by (simp add: w1_def one)
  have n1: "\<not> (t - now w1 < fiveMinutes \<and> truthy (refresh_token sc))"
    using second by (simp add: fiveMinutes_def w1_def)
  note two = load_as_is [OF file1 d n1]
  have tr: "trace (snd (loadOAuthCredentialsQuietly w1)) = trace w @
     [Log ''Attempting to load OAuth credentials from:'',
      Log ''Loaded existing OAuth credentials with scopes:'',
      Log ''Token expiry status:'',
      Log ''Attempting to load OAuth credentials from:'',
      Log ''Loaded existing OAuth credentials with scopes:'',
      Log ''Token expiry status:'']"
    by (simp add: two) (simp add: w1_def one)
  have q: "quietClient w1 sc = quietClient w sc"
    by (simp add: quietClient_def w1_def one)
  have "fst (loadOAuthCredentialsQuietly w1) = fst (loadOAuthCredentialsQuietly w)"
    by (simp add: one two q)
  moreover have "refresh_count (new_events w (snd (loadOAuthCredentialsQuietly w1))) = 0"
    by (simp add: new_events_append [OF tr] count_simps)
  moreover have "write_count (new_events w (snd (loadOAuthCredentialsQuietly w1))) = 0"
    by (simp add: new_events_append [OF tr] count_simps)
  moreover have "oauth_file (snd (loadOAuthCredentialsQuietly w1)) = oauth_file w"
    using cfile file1 by (simp add: two)
  ultimately show ?thesis
    using cfile by (simp add: one new_events_append count_simps w1_def)
qed

theorem loadOAuthCredentialsQuietly_valid_untouched_witness:
  "oauth_file (worldWithFile freshCreds)
     = Some (CredentialsJson freshCreds)
   \<and> expiry_date freshCreds = Some 1700003600000
   \<and> \<bar>1700003600000\<bar> \<le> maxTimeValue
   \<and> 300000 < 1700003600000 - now (worldWithFile freshCreds)
   \<and> (300000::int) < 1700003600000 - 1700000001000
   \<and> fst (loadOAuthCredentialsQuietly (worldWithFile freshCreds))
       = Some (OAuth2 \<lparr>client_id = None, client_secret = None,
                         client_credentials = freshCreds\<rparr>)
   \<and> fst (loadOAuthCredentialsQuietly
          (snd (loadOAuthCredentialsQuietly (worldWithFile freshCreds))
             \<lparr>now := 1700000001000\<rparr>))
       = Some (OAuth2 \<lparr>client_id = None, client_secret = None,
                         client_credentials = freshCreds\<rparr>)
   \<and> write_count (new_events (worldWithFile freshCreds)
         (snd (loadOAuthCredentialsQuietly
            (snd (loadOAuthCredentialsQuietly (worldWithFile freshCreds))
               \<lparr>now := 1700000001000\<rparr>)))) = 0"
proof -
  define sc where "sc = freshCreds"
  define w where "w = worldWithFile sc"
  have h1: "oauth_file w = Some (CredentialsJson sc)" by (simp add: w_def example_defs)
  have h2: "expiry_date sc = Some 1700003600000" by (simp add: sc_def example_defs)
  have h3: "\<bar>1700003600000\<bar> \<le> maxTimeValue" by (simp add: maxTimeValue_def)
  have h4: "300000 < 1700003600000 - now w" by (simp add: w_def example_defs)
  have h5: "(300000::int) < 1700003600000 - 1700000001000" by simp
  have q: "quietClient w sc = \<lparr>client_id = None, client_secret = None, client_credentials = sc\<rparr>"
    by (simp add: quietClient_def w_def example_defs)
  from loadOAuthCredentialsQuietly_valid_untouched [OF h1 h2 h3 h4 h5] q h1 h2 h3 h4
  show ?thesis unfolding sc_def w_def by simp
qed

text \<open>
  C9 as stated fails for the expiry date \<open>1e16\<close>: it is more than 5 minutes in the future,
  but not a valid date, so logging the expiry status throws and the function returns
  \<^verbatim>\<open>null\<close>.
\<close>

theorem loadOAuthCredentialsQuietly_far_future_null:
  "oauth_file (worldWithFile farFutureCreds)
     = Some (CredentialsJson farFutureCreds)
   \<and> expiry_date farFutureCreds = Some 10000000000000000
   \<and> 300000 < 10000000000000000 - now (worldWithFile farFutureCreds)
   \<and> fst (loadOAuthCredentialsQuietly (worldWithFile farFutureCreds)) = None"
proof -
  define sc where "sc = farFutureCreds"
  define w where "w = worldWithFile sc"
  have h1: "oauth_file w = Some (CredentialsJson sc)" by (simp add: w_def example_defs)
  have d: "newDate (expiry_date sc) = None"
    by (simp add: sc_def example_defs newDate_def maxTimeValue_def)
  have "fst (loadOAuthCredentialsQuietly w) = None" by (simp add: load_invalid_date [OF h1 d])
  moreover have "expiry_date sc = Some 10000000000000000" by (simp add: sc_def example_defs)
  moreover have "300000 < 10000000000000000 - now w" by (simp add: w_def example_defs)
  ultimately show ?thesis using h1 unfolding sc_def w_def by simp
qed

text \<open>
  C10 (as amended). If the stored record has an \<open>expiry_date\<close> that is a valid date (at
  most 8.64e15 ms from the epoch) less than 5 minutes away or already past, and no
  \<open>refresh_token\<close>, then \<open>loadOAuthCredentialsQuietly\<close> returns the handle built from
  the stale record, without a refresh attempt and without a write.
\<close>

theorem loadOAuthCredentialsQuietly_stale_without_refresh_token:
  assumes "oauth_file w = Some (CredentialsJson sc)"
    and "expiry_date sc = Some t" and "\<bar>t\<bar> \<le> maxTimeValue"
    and "t - now w < 300000"
    and "refresh_token sc = None"
  shows "fst (loadOAuthCredentialsQuietly w) = Some (OAuth2 (quietClient w sc))
    \<and> refresh_count (new_events w (snd (loadOAuthCredentialsQuietly w))) = 0
    \<and> write_count (new_events w (snd (loadOAuthCredentialsQuietly w))) = 0
    \<and> oauth_file (snd (loadOAuthCredentialsQuietly w)) = oauth_file w"
proof -
  have d: "newDate (expiry_date sc) = Some t" using assms by (simp add: newDate_def)
  have n: "\<not> (t - now w < fiveMinutes \<and> truthy (refresh_token sc))"
    using assms by (simp add: truthy_def)
  show ?thesis
    using assms(1) by (simp add: load_as_is [OF assms(1) d n] new_events_append count_simps)
qed

theorem loadOAuthCredentialsQuietly_stale_without_refresh_token_witness:
  "oauth_file (worldWithFile staleCreds)
     = Some (CredentialsJson staleCreds)
   \<and> expiry_date staleCreds = Some 1699999999000
   \<and> \<bar>1699999999000\<bar> \<le> maxTimeValue
   \<and> 1699999999000 - now (worldWithFile staleCreds) < 300000
   \<and> refresh_token staleCreds = None
   \<and> fst (loadOAuthCredentialsQuietly (worldWithFile staleCreds))
       = Some (OAuth2 \<lparr>client_id = None, client_secret = None,
                         client_credentials = staleCreds\<rparr>)
   \<and> refresh_count (new_events (worldWithFile staleCreds)
         (snd (loadOAuthCredentialsQuietly (worldWithFile staleCreds)))) = 0
   \<and> write_count (new_events (worldWithFile staleCreds)
         (snd (loadOAuthCredentialsQuietly (worldWithFile staleCreds)))) = 0"
proof -
  define sc where "sc = staleCreds"
  define w where "w = worldWithFile sc"
  have h1: "oauth_file w = Some (CredentialsJson sc)" by (simp add: w_def example_defs)
  have h2: "expiry_date sc = Some 1699999999000" by (simp add: sc_def example_defs)
  have h3: "\<bar>1699999999000\<bar> \<le> maxTimeValue" by (simp add: maxTimeValue_def)
  have h4: "1699999999000 - now w < 300000" by (simp add: w_def example_defs)
  have h5: "refresh_token sc = None" by (simp add: sc_def example_defs)
  have q: "quietClient w sc = \<lparr>client_id = None, client_secret = None, client_credentials = sc\<rparr>"
    by (simp add: quietClient_def w_def example_defs)
  from loadOAuthCredentialsQuietly_stale_without_refresh_token [OF h1 h2 h3 h4 h5] q h1 h2 h3 h4 h5
  show ?thesis unfolding sc_def w_def by simp
qed

text \<open>
  C10 as stated fails for the expiry date \<open>-1e16\<close>: it is already past, but not a valid
  date, so the function returns \<^verbatim>\<open>null\<close>.
\<close>

theorem loadOAuthCredentialsQuietly_far_past_null:
  "oauth_file (worldWithFile farPastNoTokenCreds)
     = Some (CredentialsJson farPastNoTokenCreds)
   \<and> expiry_date farPastNoTokenCreds = Some (- 10000000000000000)
   \<and> - 10000000000000000 - now (worldWithFile farPastNoTokenCreds) < 300000
   \<and> refresh_token farPastNoTokenCreds = None
   \<and> fst (loadOAuthCredentialsQuietly (worldWithFile farPastNoTokenCreds)) = None"
proof -
  define sc where "sc = farPastNoTokenCreds"
  define w where "w = worldWithFile sc"
  have h1: "oauth_file w = Some (CredentialsJson sc)" by (simp add: w_def example_defs)
  have d: "newDate (expiry_date sc) = None"
    by (simp add: sc_def example_defs newDate_def maxTimeValue_def)
  have "fst (loadOAuthCredentialsQuietly w) = None" by (simp add: load_invalid_date [OF h1 d])
  moreover have "expiry_date sc = Some (- 10000000000000000)" "refresh_token sc = None"
    by (simp_all add: sc_def example_defs)
  moreover have "- 10000000000000000 - now w < 300000" by (simp add: w_def example_defs)
  ultimately show ?thesis using h1 unfolding sc_def w_def by simp
qed

section \<open>Service account, interactive flow and the top-level entry\<close>

subsection \<open>Paths and frames\<close>

text \<open>
  As for the quiet load, one lemma per path of \<^verbatim>\<open>authenticateWithServiceAccount\<close> and
  \<^verbatim>\<open>authenticateAndSaveCredentials\<close>. The frame lemmas say what a call can change at
  all: the credential file and the trace, by appending.
\<close>

lemma count_app:
  "interactive_count (xs @ ys) = interactive_count xs + interactive_count ys"
  "log_count m (xs @ ys) = log_count m xs + log_count m ys"
  "refresh_count (xs @ ys) = refresh_count xs + refresh_count ys"
  "write_count (xs @ ys) = write_count xs + write_count ys"
  by (simp_all add: interactive_count_def log_count_def refresh_count_def write_count_def)

lemma count_simps2:
  "interactive_count [] = 0"
  "interactive_count (e # es) = (if e = InteractiveAuth then 1 else 0) + interactive_count es"
  "log_count m [] = 0"
  "log_count m (e # es) = (if e = Log m then 1 else 0) + log_count m es"
  by (simp_all add: interactive_count_def log_count_def)

lemma sa_missing:
  assumes "\<not> sa_file_exists w"
  shows "authenticateWithServiceAccount w =
    (None, w\<lparr>trace := trace w @ [Log ''Authenticating with service account from:'',
                                  Log ''Service account file not found at:'']\<rparr>)"
  using assms by (simp add: authenticateWithServiceAccount_def prim_defs Let_def)

lemma sa_present:
  assumes "sa_file_exists w"
  shows "authenticateWithServiceAccount w =
    (Some (GoogleAuth (serviceAccountPath w) SCOPES),
     w\<lparr>trace := trace w @ [Log ''Authenticating with service account from:'',
                            Log ''Service account authentication successful'']\<rparr>)"
  using assms by (simp add: authenticateWithServiceAccount_def prim_defs Let_def)

lemmas auth_defs = authenticateAndSaveCredentials_def authenticateWithTimeout_def
  authenticateAndSaveCredentials_try_def refreshAccessToken_def ensureCredsDirectory_def
  refresh_answer_def refresh_count_def auth_prefix_def Let_def prim_defs

lemma auth_timed_out:
  assumes "timed_out w"
  shows "authenticateAndSaveCredentials w =
    (None, w\<lparr>trace := trace w @ auth_prefix @
        [Log ''Error: Authentication timed out'',
         Log ''Error refreshing token during initial auth:'']\<rparr>)"
  using assms by (auto simp add: timed_out_def auth_defs split: option.splits)

lemma auth_rejected:
  assumes "auth_settles w = Some (d, Rejected)" and "d < defaultTimeoutMs"
  shows "authenticateAndSaveCredentials w =
    (None, w\<lparr>trace := trace w @ auth_prefix @
        [Log ''Error'', Log ''Error refreshing token during initial auth:'']\<rparr>)"
  using assms by (simp add: auth_defs)

lemma auth_refresh_failed:
  assumes "auth_settles w = Some (d, Resolved c)" and "d < defaultTimeoutMs"
    and "refresh_answer w c = None"
  shows "authenticateAndSaveCredentials w =
    (Some (OAuth2 c), w\<lparr>trace := trace w @ auth_prefix @
        [RefreshAttempt c, Log ''Error refreshing token during initial auth:'']\<rparr>)"
  using assms by (simp add: auth_defs)

lemma auth_saved:
  assumes "auth_settles w = Some (d, Resolved c)" and "d < defaultTimeoutMs"
    and "refresh_answer w c = Some nc" and "mkdir_ok w \<or> oauth_file w \<noteq> None"
    and "write_ok w"
  shows "authenticateAndSaveCredentials w =
    (Some (OAuth2 (c\<lparr>client_credentials := nc\<rparr>)),
     w\<lparr>oauth_file := Some (CredentialsJson nc),
       trace := trace w @ auth_prefix @
        [RefreshAttempt c, Log ''Received new credentials with scopes:'', Mkdir,
         Log ''Ensured credentials directory exists at:'', WriteFile nc,
         Log ''Credentials saved successfully with refresh token to:'']\<rparr>)"
  using assms by (auto simp add: auth_defs)

lemma auth_write_failed:
  assumes "auth_settles w = Some (d, Resolved c)" and "d < defaultTimeoutMs"
    and "refresh_answer w c = Some nc" and "mkdir_ok w \<or> oauth_file w \<noteq> None"
    and "\<not> write_ok w"
  shows "authenticateAndSaveCredentials w =
    (Some (OAuth2 (c\<lparr>client_credentials := nc\<rparr>)),
     w\<lparr>trace := trace w @ auth_prefix @
        [RefreshAttempt c, Log ''Received new credentials with scopes:'', Mkdir,
         Log ''Ensured credentials directory exists at:'',
         Log ''Error refreshing token during initial auth:'']\<rparr>)"
  using assms by (auto simp add: auth_defs)

lemma auth_mkdir_failed:
  assumes "auth_settles w = Some (d, Resolved c)" and "d < defaultTimeoutMs"
    and "refresh_answer w c = Some nc" and "\<not> (mkdir_ok w \<or> oauth_file w \<noteq> None)"
  shows "authenticateAndSaveCredentials w =
    (Some (OAuth2 (c\<lparr>client_credentials := nc\<rparr>)),
     w\<lparr>trace := trace w @ auth_prefix @
        [RefreshAttempt c, Log ''Received new credentials with scopes:'',
         Log ''Failed to create credentials directory:'',
         Log ''Error refreshing token during initial auth:'']\<rparr>)"
  using assms by (simp add: auth_defs)

lemma auth_cases:
  obtains
    (timed_out) "timed_out w"
  | (rejected) d where "auth_settles w = Some (d, Rejected)" "d < defaultTimeoutMs"
  | (refresh_failed) d c where "auth_settles w = Some (d, Resolved c)" "d < defaultTimeoutMs"
      "refresh_answer w c = None"
  | (saved) d c nc where "auth_settles w = Some (d, Resolved c)" "d < defaultTimeoutMs"
      "refresh_answer w c = Some nc" "mkdir_ok w \<or> oauth_file w \<noteq> None" "write_ok w"
  | (write_failed) d c nc where "auth_settles w = Some (d, Resolved c)"
      "d < defaultTimeoutMs" "refresh_answer w c = Some nc"
      "mkdir_ok w \<or> oauth_file w \<noteq> None" "\<not> write_ok w"
  | (mkdir_failed) d c nc where "auth_settles w = Some (d, Resolved c)" "d < defaultTimeoutMs"
      "refresh_answer w c = Some nc" "\<not> (mkdir_ok w \<or> oauth_file w \<noteq> None)"
proof (cases "auth_settles w")
  case None
  then have "timed_out w" by (simp add: timed_out_def)
  then show ?thesis by (rule timed_out)
next
  case (Some p)
  obtain d s where p: "p = (d, s)" by (cases p)
  show ?thesis
  proof (cases "d < defaultTimeoutMs")
    case False
    with Some p have "timed_out w" by (simp add: timed_out_def)
    then show ?thesis by (rule timed_out)
  next
    case True
    show ?thesis
    proof (cases s)
      case Rejected
      with Some p True show ?thesis by (simp add: rejected)
    next
      case (Resolved c)
      with Some p have st: "auth_settles w = Some (d, Resolved c)" by simp
      show ?thesis
      proof (cases "refresh_answer w c")
        case None
        with st True show ?thesis by (rule refresh_failed)
      next
        case (Some nc)
        show ?thesis
        proof (cases "mkdir_ok w \<or> oauth_file w \<noteq> None")
          case True
          show ?thesis
          proof (cases "write_ok w")
            case wr: True
            from st \<open>d < defaultTimeoutMs\<close> Some True wr show ?thesis by (rule saved)
          next
            case wr: False
            from st \<open>d < defaultTimeoutMs\<close> Some True wr show ?thesis
              by (rule write_failed)
          qed
        next
          case False
          with st \<open>d < defaultTimeoutMs\<close> Some show ?thesis by (rule mkdir_failed)
        qed
      qed
    qed
  qed
qed

lemma load_frame:
  obtains fl es where
    "snd (loadOAuthCredentialsQuietly w) = w\<lparr>oauth_file := fl, trace := trace w @ es\<rparr>"
    "(fl = None) = (oauth_file w = None)" "interactive_count es = 0"
proof (cases rule: load_cases [of w])
  case no_file
  show ?thesis
    by (rule that [of _ "oauth_file w"]) (simp add: load_no_file [OF no_file] count_simps2)+
next
  case unparseable
  show ?thesis
    by (rule that [of _ "oauth_file w"]) (simp add: load_unparseable [OF unparseable] count_simps2)+
next
  case (invalid_date sc)
  show ?thesis
    by (rule that [of _ "oauth_file w"]) (simp add: load_invalid_date [OF invalid_date] count_simps2)+
next
  case (as_is sc t)
  show ?thesis
    by (rule that [of _ "oauth_file w"]) (simp add: load_as_is [OF as_is] count_simps2)+
next
  case (refresh_failed sc t)
  show ?thesis
    by (rule that [of _ "oauth_file w"]) (simp add: load_refresh_failed [OF refresh_failed] count_simps2)+
next
  case (refreshed sc t nc)
  show ?thesis
    by (rule that [of _ "Some (CredentialsJson nc)"])
       (simp add: load_refreshed [OF refreshed] refreshed count_simps2)+
next
  case (write_failed sc t nc)
  show ?thesis
    by (rule that [of _ "oauth_file w"])
       (simp add: load_write_failed [OF write_failed] count_simps2)+
qed

lemma auth_frame:
  obtains fl es where
    "snd (authenticateAndSaveCredentials w) = w\<lparr>oauth_file := fl, trace := trace w @ es\<rparr>"
    "interactive_count es = 1"
proof (cases rule: auth_cases [of w])
  case timed_out
  show ?thesis
    by (rule that [of _ "oauth_file w"]) (simp add: auth_timed_out [OF timed_out] count_simps2 auth_prefix_def)+
next
  case (rejected d)
  show ?thesis
    by (rule that [of _ "oauth_file w"]) (simp add: auth_rejected [OF rejected] count_simps2 auth_prefix_def)+
next
  case (refresh_failed d c)
  show ?thesis
    by (rule that [of _ "oauth_file w"]) (simp add: auth_refresh_failed [OF refresh_failed] count_simps2 auth_prefix_def)+
next
  case (saved d c nc)
  show ?thesis
    by (rule that [of _ "Some (CredentialsJson nc)"]) (simp add: auth_saved [OF saved] count_simps2 auth_prefix_def)+
next
  case (mkdir_failed d c nc)
  show ?thesis
    by (rule that [of _ "oauth_file w"])
       (simp add: auth_mkdir_failed [OF mkdir_failed] count_simps2 auth_prefix_def)+
next
  case (write_failed d c nc)
  show ?thesis
    by (rule that [of _ "oauth_file w"])
       (simp add: auth_write_failed [OF write_failed] count_simps2 auth_prefix_def)+
qed

lemma sa_frame:
  obtains es where
    "snd (authenticateWithServiceAccount w) = w\<lparr>trace := trace w @ es\<rparr>"
    "interactive_count es = 0"
    "log_count ''Authenticating with service account from:'' es = 1"
    "log_count ''Retrying service account authentication'' es = 0"
proof (cases "sa_file_exists w")
  case True
  show ?thesis by (rule that) (simp add: sa_present [OF True] count_simps2)+
next
  case False
  show ?thesis by (rule that) (simp add: sa_missing [OF False] count_simps2)+
qed

lemma getAuthType_trace [simp]: "getAuthType (w\<lparr>trace := tr\<rparr>) = getAuthType w"
  by (simp add: getAuthType_def)

lemma getAuthType_frame:
  assumes "(fl = None) = (oauth_file w = None)"
  shows "getAuthType (w\<lparr>oauth_file := fl\<rparr>) = getAuthType w"
  using assms by (simp add: getAuthType_def)

lemma getAuthType_logged [simp]: "getAuthType (console_error m w) = getAuthType w"
  by (simp add: getAuthType_def prim_defs)

lemma quiet_frame:
  obtains fl es where
    "snd (loadCredentialsQuietly w) = w\<lparr>oauth_file := fl, trace := trace w @ es\<rparr>"
    "(fl = None) = (oauth_file w = None)" "interactive_count es = 0"
proof (cases "getAuthType w = SERVICE_ACCOUNT")
  case True
  obtain es where
    "snd (authenticateWithServiceAccount (console_error ''Using auth type:'' w))
       = (console_error ''Using auth type:'' w)\<lparr>trace := trace (console_error ''Using auth type:'' w) @ es\<rparr>"
    "interactive_count es = 0"
    by (rule sa_frame)
  with True show ?thesis
    by (intro that [of "Log ''Using auth type:'' # es" "oauth_file w"])
       (simp_all add: loadCredentialsQuietly_def prim_defs count_simps2)
next
  case False
  obtain fl es where
    "snd (loadOAuthCredentialsQuietly (console_error ''Using auth type:'' w))
       = (console_error ''Using auth type:'' w)\<lparr>oauth_file := fl,
           trace := trace (console_error ''Using auth type:'' w) @ es\<rparr>"
    "(fl = None) = (oauth_file (console_error ''Using auth type:'' w) = None)"
    "interactive_count es = 0"
    by (rule load_frame)
  with False show ?thesis
    by (intro that [of "Log ''Using auth type:'' # es" fl])
       (simp_all add: loadCredentialsQuietly_def prim_defs count_simps2)
qed

lemma new_events_frame [simp]:
  "new_events w (w\<lparr>oauth_file := fl, trace := trace w @ es\<rparr>) = es"
  "new_events w (w\<lparr>trace := trace w @ es\<rparr>) = es"
  by (simp_all add: new_events_def)

lemma timeout_null:
  assumes "interactive_fails w"
  shows "fst (authenticateWithTimeout defaultTimeoutMs w) = None"
  using assms
  by (auto simp add: interactive_fails_def authenticateWithTimeout_def prim_defs Let_def
      split: option.splits settlement.splits)

lemma auth_null:
  assumes "interactive_fails w"
  shows "fst (authenticateAndSaveCredentials w) = None"
proof (cases rule: auth_cases [of w])
  case timed_out
  then show ?thesis by (simp add: auth_timed_out)
next
  case (rejected d)
  then show ?thesis by (simp add: auth_rejected)
next
  case (refresh_failed d c)
  with assms show ?thesis by (simp add: interactive_fails_def)
next
  case (saved d c nc)
  with assms show ?thesis by (simp add: interactive_fails_def)
next
  case (mkdir_failed d c nc)
  with assms show ?thesis by (simp add: interactive_fails_def)
next
  case (write_failed d c nc)
  with assms show ?thesis by (simp add: interactive_fails_def)
qed

lemma interactive_fails_frame [simp]:
  "interactive_fails (w\<lparr>oauth_file := fl\<rparr>) = interactive_fails w"
  "interactive_fails (w\<lparr>trace := tr\<rparr>) = interactive_fails w"
  by (simp_all add: interactive_fails_def)

lemma gvc_oauth_fallback:
  assumes "fst (loadCredentialsQuietly w) = None" and "getAuthType w = OAUTH"
  shows "getValidCredentials False w =
    authenticateAndSaveCredentials (snd (loadCredentialsQuietly w))"
proof -
  obtain fl es where es: "snd (loadCredentialsQuietly w) = w\<lparr>oauth_file := fl, trace := trace w @ es\<rparr>"
      "(fl = None) = (oauth_file w = None)"
    by (rule quiet_frame)
  have "getAuthType (snd (loadCredentialsQuietly w)) = OAUTH"
    using assms by (simp add: es(1) getAuthType_frame [OF es(2)])
  with assms show ?thesis
    by (cases "loadCredentialsQuietly w")
       (simp add: getValidCredentials_def getValidCredentials_fallback_def)
qed

lemma fallback_frame:
  obtains fl es where
    "snd (getValidCredentials_fallback w) = w\<lparr>oauth_file := fl, trace := trace w @ es\<rparr>"
proof (cases "getAuthType w = SERVICE_ACCOUNT")
  case True
  obtain es where
    "snd (authenticateWithServiceAccount (console_error ''Retrying service account authentication'' w))
       = (console_error ''Retrying service account authentication'' w)
          \<lparr>trace := trace (console_error ''Retrying service account authentication'' w) @ es\<rparr>"
    by (rule sa_frame)
  with True show ?thesis
    by (intro that [of "Log ''Retrying service account authentication'' # es" "oauth_file w"])
       (simp add: getValidCredentials_fallback_def prim_defs)
next
  case False
  obtain fl es where
    "snd (authenticateAndSaveCredentials w) = w\<lparr>oauth_file := fl, trace := trace w @ es\<rparr>"
    by (rule auth_frame)
  with False show ?thesis
    by (intro that [of es fl]) (simp add: getValidCredentials_fallback_def)
qed

lemma gvc_frame:
  obtains fl es where
    "snd (getValidCredentials b w) = w\<lparr>oauth_file := fl, trace := trace w @ es\<rparr>"
proof -
  obtain fl es where q: "snd (loadCredentialsQuietly w) = w\<lparr>oauth_file := fl, trace := trace w @ es\<rparr>"
    by (rule quiet_frame)
  obtain fl' es' where f: "snd (getValidCredentials_fallback (snd (loadCredentialsQuietly w)))
      = (snd (loadCredentialsQuietly w))\<lparr>oauth_file := fl',
          trace := trace (snd (loadCredentialsQuietly w)) @ es'\<rparr>"
    by (rule fallback_frame)
  obtain fl'' es'' where f': "snd (getValidCredentials_fallback w)
      = w\<lparr>oauth_file := fl'', trace := trace w @ es''\<rparr>"
    by (rule fallback_frame)
  show ?thesis
  proof (cases b)
    case True
    with f' show ?thesis by (intro that [of es'' fl'']) (simp add: getValidCredentials_def)
  next
    case False
    show ?thesis
    proof (cases "fst (loadCredentialsQuietly w)")
      case (Some h)
      with False q show ?thesis
        by (intro that [of es fl]) (cases "loadCredentialsQuietly w", simp add: getValidCredentials_def)
    next
      case None
      have "snd (getValidCredentials b w) = w\<lparr>oauth_file := fl', trace := trace w @ (es @ es')\<rparr>"
        using False None f q
        by (cases "loadCredentialsQuietly w") (simp add: getValidCredentials_def)
      then show ?thesis by (rule that)
    qed
  qed
qed

lemma sa_result:
  "fst (authenticateWithServiceAccount w) =
     (if sa_file_exists w then Some (GoogleAuth (serviceAccountPath w) SCOPES) else None)"
  by (simp add: authenticateWithServiceAccount_def prim_defs Let_def)

lemma quietClient_logged [simp]: "quietClient (console_error m w) sc = quietClient w sc"
  by (simp add: quietClient_def prim_defs)

lemma fields_logged [simp]:
  "oauth_file (console_error m w) = oauth_file w"
  "now (console_error m w) = now w"
  "sa_file_exists (console_error m w) = sa_file_exists w"
  "serviceAccountPath (console_error m w) = serviceAccountPath w"
  "write_ok (console_error m w) = write_ok w"
  by (simp_all add: prim_defs)

lemma refresh_answer_logged [simp]:
  "refresh_answer (console_error m w) c = refresh_answer w c"
  by (simp add: refresh_answer_def refresh_count_def prim_defs)

lemma load_logged:
  "fst (loadOAuthCredentialsQuietly (console_error m w)) = fst (loadOAuthCredentialsQuietly w)"
proof (cases rule: load_cases [of w])
  case no_file
  then show ?thesis by (simp add: load_no_file)
next
  case unparseable
  then show ?thesis by (simp add: load_unparseable)
next
  case (invalid_date sc)
  then show ?thesis by (simp add: load_invalid_date)
next
  case (as_is sc t)
  then show ?thesis
    by (simp add: load_as_is [OF as_is] load_as_is [of "console_error m w" sc t])
next
  case (refresh_failed sc t)
  then show ?thesis
    by (simp add: load_refresh_failed [OF refresh_failed]
        load_refresh_failed [of "console_error m w" sc t])
next
  case (refreshed sc t nc)
  then show ?thesis
    by (simp add: load_refreshed [OF refreshed] load_refreshed [of "console_error m w" sc t nc])
next
  case (write_failed sc t nc)
  then show ?thesis
    by (simp add: load_write_failed [OF write_failed]
        load_write_failed [of "console_error m w" sc t nc])
qed

lemma quiet_logged:
  "fst (loadCredentialsQuietly (console_error m w)) = fst (loadCredentialsQuietly w)"
proof -
  have "fst (loadOAuthCredentialsQuietly (console_error ''Using auth type:'' (console_error m w)))
      = fst (loadOAuthCredentialsQuietly (console_error ''Using auth type:'' w))"
    by (simp add: load_logged)
  then show ?thesis
    by (cases "getAuthType w = SERVICE_ACCOUNT")
       (simp_all add: loadCredentialsQuietly_def sa_result Let_def)
qed

lemma startServer_outcome:
  obtains fl es where
    "startServer w =
      (let w3 = google_options (fst (getValidCredentials False
                   (console_error ''Using authentication method:'' (console_error ''Starting server'' w))))
                 (w\<lparr>oauth_file := fl,
                    trace := trace w @ Log ''Starting server'' # Log ''Using authentication method:'' # es\<rparr>)
       in if connect_ok w
          then (if getAuthType w = OAUTH then setupTokenRefresh (emit Connect w3) else emit Connect w3)
          else process_exit 1 (console_error ''Error starting server:'' (emit Connect w3)))"
proof -
  define w2 where "w2 = console_error ''Using authentication method:'' (console_error ''Starting server'' w)"
  obtain fl es where fr: "snd (getValidCredentials False w2) = w2\<lparr>oauth_file := fl, trace := trace w2 @ es\<rparr>"
    by (rule gvc_frame)
  define a where "a = fst (getValidCredentials False w2)"
  define W where "W = w\<lparr>oauth_file := fl,
      trace := trace w @ Log ''Starting server'' # Log ''Using authentication method:'' # es\<rparr>"
  have gv: "getValidCredentials False w2 = (a, W)"
    using fr by (cases "getValidCredentials False w2") (simp add: a_def W_def w2_def prim_defs)
  have c: "connect_ok (google_options a W) = connect_ok w"
    by (simp add: W_def prim_defs)
  have "startServer w =
      (let w3 = google_options a W
       in if connect_ok w
          then (if getAuthType w = OAUTH then setupTokenRefresh (emit Connect w3) else emit Connect w3)
          else process_exit 1 (console_error ''Error starting server:'' (emit Connect w3)))"
    unfolding startServer_def startServer_try_def ensureAuth_def Let_def w2_def [symmetric] gv
    by (simp add: server_connect_def c)
  then show ?thesis unfolding a_def W_def w2_def by (rule that)
qed

lemmas eval_defs = loadCredentialsQuietly_def loadOAuthCredentialsQuietly_def
  loadOAuthCredentialsQuietly_try_def loadOAuthCredentialsQuietly_refresh_def
  authenticateWithServiceAccount_def authenticateAndSaveCredentials_def
  authenticateAndSaveCredentials_try_def authenticateWithTimeout_def refreshAccessToken_def
  refresh_answer_def ensureCredsDirectory_def getAuthType_def getValidCredentials_def
  getValidCredentials_fallback_def newDate_def truthy_def fiveMinutes_def maxTimeValue_def
  defaultTimeoutMs_def refresh_count_def Let_def prim_defs example_defs

subsection \<open>The paths of \<open>getValidCredentials\<close>\<close>

text \<open>
  C5. A call \<open>getValidCredentials False\<close> first runs the quiet load and returns its result
  when that is a handle. When the quiet load gives \<^verbatim>\<open>null\<close> and the mode is
  \<open>SERVICE_ACCOUNT\<close>, it continues from the state the quiet load left, logs the retry
  once, calls \<open>authenticateWithServiceAccount\<close> once more and never starts the
  interactive flow. When the mode is \<open>OAUTH\<close>, it continues with
  \<open>authenticateAndSaveCredentials\<close>, which starts the interactive flow once. A forced
  call skips the quiet load and does the same from the state it was called in.
\<close>

theorem getValidCredentials_paths:
  "(\<forall>h. fst (loadCredentialsQuietly w) = Some h \<longrightarrow>
       getValidCredentials False w = loadCredentialsQuietly w)
   \<and> (fst (loadCredentialsQuietly w) = None \<and> getAuthType w = SERVICE_ACCOUNT \<longrightarrow>
         getValidCredentials False w =
           authenticateWithServiceAccount
             (console_error ''Retrying service account authentication''
               (snd (loadCredentialsQuietly w)))
       \<and> log_count ''Retrying service account authentication''
           (new_events w (snd (getValidCredentials False w))) = 1
       \<and> log_count ''Authenticating with service account from:''
           (new_events (snd (loadCredentialsQuietly w)) (snd (getValidCredentials False w))) = 1
       \<and> interactive_count (new_events w (snd (getValidCredentials False w))) = 0)
   \<and> (fst (loadCredentialsQuietly w) = None \<and> getAuthType w = OAUTH \<longrightarrow>
         getValidCredentials False w = authenticateAndSaveCredentials (snd (loadCredentialsQuietly w))
       \<and> interactive_count (new_events w (snd (getValidCredentials False w))) = 1)
   \<and> (getAuthType w = SERVICE_ACCOUNT \<longrightarrow>
         getValidCredentials True w =
           authenticateWithServiceAccount
             (console_error ''Retrying service account authentication'' w)
       \<and> interactive_count (new_events w (snd (getValidCredentials True w))) = 0)
   \<and> (getAuthType w = OAUTH \<longrightarrow>
         getValidCredentials True w = authenticateAndSaveCredentials w
       \<and> interactive_count (new_events w (snd (getValidCredentials True w))) = 1)"
proof (intro conjI allI impI)
  fix h assume "fst (loadCredentialsQuietly w) = Some h"
  then show "getValidCredentials False w = loadCredentialsQuietly w"
    by (cases "loadCredentialsQuietly w") (simp add: getValidCredentials_def)
next
  assume a: "fst (loadCredentialsQuietly w) = None \<and> getAuthType w = SERVICE_ACCOUNT"
  define wq where "wq = snd (loadCredentialsQuietly w)"
  define wr where "wr = console_error ''Retrying service account authentication'' wq"
  have q: "loadCredentialsQuietly w =
      authenticateWithServiceAccount (console_error ''Using auth type:'' w)"
    using a by (simp add: loadCredentialsQuietly_def)
  obtain es where es: "wq = (console_error ''Using auth type:'' w)
        \<lparr>trace := trace (console_error ''Using auth type:'' w) @ es\<rparr>"
      "log_count ''Retrying service account authentication'' es = 0"
      "interactive_count es = 0"
    unfolding wq_def q by (rule sa_frame)
  have mode: "getAuthType wq = SERVICE_ACCOUNT"
    using a by (simp add: es(1))
  have g: "getValidCredentials False w = authenticateWithServiceAccount wr"
    using a mode
    by (cases "loadCredentialsQuietly w")
       (simp add: getValidCredentials_def getValidCredentials_fallback_def wq_def wr_def)
  obtain es' where es': "snd (authenticateWithServiceAccount wr) = wr\<lparr>trace := trace wr @ es'\<rparr>"
      "log_count ''Retrying service account authentication'' es' = 0"
      "log_count ''Authenticating with service account from:'' es' = 1"
      "interactive_count es' = 0"
    by (rule sa_frame)
  have t1: "trace (snd (getValidCredentials False w)) =
      trace w @ (Log ''Using auth type:'' # es @ Log ''Retrying service account authentication'' # es')"
  proof -
    have "trace (snd (authenticateWithServiceAccount wr)) = trace wr @ es'"
      by (simp add: es'(1))
    moreover have "trace wr =
        trace w @ Log ''Using auth type:'' # es @ [Log ''Retrying service account authentication'']"
      by (simp add: wr_def es(1) prim_defs)
    ultimately show ?thesis by (simp add: g)
  qed
  have t2: "trace (snd (getValidCredentials False w)) =
      trace wq @ (Log ''Retrying service account authentication'' # es')"
  proof -
    have "trace (snd (authenticateWithServiceAccount wr)) = trace wr @ es'"
      by (simp add: es'(1))
    moreover have "trace wr = trace wq @ [Log ''Retrying service account authentication'']"
      by (simp add: wr_def prim_defs)
    ultimately show ?thesis by (simp add: g)
  qed
  show "getValidCredentials False w =
           authenticateWithServiceAccount
             (console_error ''Retrying service account authentication''
               (snd (loadCredentialsQuietly w)))"
    using g by (simp add: wr_def wq_def)
  show "log_count ''Retrying service account authentication''
           (new_events w (snd (getValidCredentials False w))) = 1"
    by (simp add: new_events_append [OF t1] count_simps2 count_app es es')
  show "log_count ''Authenticating with service account from:''
           (new_events (snd (loadCredentialsQuietly w)) (snd (getValidCredentials False w))) = 1"
    using new_events_append [OF t2] by (simp add: wq_def count_simps2 es')
  show "interactive_count (new_events w (snd (getValidCredentials False w))) = 0"
    by (simp add: new_events_append [OF t1] count_simps2 count_app es es')
next
  assume a: "fst (loadCredentialsQuietly w) = None \<and> getAuthType w = OAUTH"
  define wq where "wq = snd (loadCredentialsQuietly w)"
  obtain fl es where es: "wq = w\<lparr>oauth_file := fl, trace := trace w @ es\<rparr>"
      "(fl = None) = (oauth_file w = None)" "interactive_count es = 0"
    unfolding wq_def by (rule quiet_frame)
  have mode: "getAuthType wq = OAUTH"
    using a by (simp add: es(1) getAuthType_frame [OF es(2)])
  have g: "getValidCredentials False w = authenticateAndSaveCredentials wq"
    using a mode
    by (cases "loadCredentialsQuietly w")
       (simp add: getValidCredentials_def getValidCredentials_fallback_def wq_def)
  obtain fl' es' where es': "snd (authenticateAndSaveCredentials wq) =
        wq\<lparr>oauth_file := fl', trace := trace wq @ es'\<rparr>" "interactive_count es' = 1"
    by (rule auth_frame)
  have t1: "trace (snd (getValidCredentials False w)) = trace w @ (es @ es')"
  proof -
    have "trace (snd (authenticateAndSaveCredentials wq)) = trace wq @ es'"
      by (simp add: es'(1))
    moreover have "trace wq = trace w @ es" by (simp add: es(1))
    ultimately show ?thesis by (simp add: g)
  qed
  show "getValidCredentials False w = authenticateAndSaveCredentials (snd (loadCredentialsQuietly w))"
    using g by (simp add: wq_def)
  show "interactive_count (new_events w (snd (getValidCredentials False w))) = 1"
    by (simp add: new_events_append [OF t1] count_app es es')
next
  assume a: "getAuthType w = SERVICE_ACCOUNT"
  define wr where "wr = console_error ''Retrying service account authentication'' w"
  have g: "getValidCredentials True w = authenticateWithServiceAccount wr"
    using a by (simp add: getValidCredentials_def getValidCredentials_fallback_def wr_def)
  obtain es where es: "snd (authenticateWithServiceAccount wr) = wr\<lparr>trace := trace wr @ es\<rparr>"
      "interactive_count es = 0"
    by (rule sa_frame)
  have t: "trace (snd (getValidCredentials True w)) =
      trace w @ (Log ''Retrying service account authentication'' # es)"
  proof -
    have "trace (snd (authenticateWithServiceAccount wr)) = trace wr @ es"
      by (simp add: es(1))
    moreover have "trace wr = trace w @ [Log ''Retrying service account authentication'']"
      by (simp add: wr_def prim_defs)
    ultimately show ?thesis by (simp add: g)
  qed
  show "getValidCredentials True w =
      authenticateWithServiceAccount (console_error ''Retrying service account authentication'' w)"
    using g by (simp add: wr_def)
  show "interactive_count (new_events w (snd (getValidCredentials True w))) = 0"
    by (simp add: new_events_append [OF t] count_simps2 es)
next
  assume a: "getAuthType w = OAUTH"
  have g: "getValidCredentials True w = authenticateAndSaveCredentials w"
    using a by (simp add: getValidCredentials_def getValidCredentials_fallback_def)
  obtain fl es where es: "snd (authenticateAndSaveCredentials w) =
        w\<lparr>oauth_file := fl, trace := trace w @ es\<rparr>" "interactive_count es = 1"
    by (rule auth_frame)
  show "getValidCredentials True w = authenticateAndSaveCredentials w" by (rule g)
  show "interactive_count (new_events w (snd (getValidCredentials True w))) = 1"
    by (simp add: g es)
qed

theorem getValidCredentials_paths_witness:
  "fst (loadCredentialsQuietly (worldWithFile freshCreds))
     = Some (OAuth2 \<lparr>client_id = None, client_secret = None,
                       client_credentials = freshCreds\<rparr>)
   \<and> getValidCredentials False (worldWithFile freshCreds)
     = loadCredentialsQuietly (worldWithFile freshCreds)
   \<and> fst (loadCredentialsQuietly forcedWorld) = None
   \<and> getAuthType forcedWorld = SERVICE_ACCOUNT
   \<and> log_count ''Retrying service account authentication''
        (new_events forcedWorld
          (snd (getValidCredentials False forcedWorld))) = 1
   \<and> interactive_count
        (new_events forcedWorld
          (snd (getValidCredentials False forcedWorld))) = 0
   \<and> fst (loadCredentialsQuietly emptyWorld) = None
   \<and> getAuthType emptyWorld = OAUTH
   \<and> getValidCredentials False emptyWorld
       = authenticateAndSaveCredentials (snd (loadCredentialsQuietly emptyWorld))
   \<and> interactive_count (new_events emptyWorld (snd (getValidCredentials False emptyWorld))) = 1
   \<and> interactive_count (new_events forcedWorld (snd (getValidCredentials True forcedWorld))) = 0
   \<and> interactive_count (new_events emptyWorld (snd (getValidCredentials True emptyWorld))) = 1"
proof -
  define wa where "wa = worldWithFile freshCreds"
  define wb where "wb = forcedWorld"
  have a: "fst (loadCredentialsQuietly wa)
     = Some (OAuth2 \<lparr>client_id = None, client_secret = None,
                       client_credentials = freshCreds\<rparr>)"
    by (simp add: wa_def eval_defs)
  have b: "fst (loadCredentialsQuietly wb) = None" "getAuthType wb = SERVICE_ACCOUNT"
    by (simp_all add: wb_def eval_defs)
  have c: "fst (loadCredentialsQuietly emptyWorld) = None" "getAuthType emptyWorld = OAUTH"
    by (simp_all add: eval_defs)
  from getValidCredentials_paths [of wa] a
  have ra: "getValidCredentials False wa = loadCredentialsQuietly wa" by blast
  from getValidCredentials_paths [of wb] b
  have rb: "log_count ''Retrying service account authentication''
        (new_events wb (snd (getValidCredentials False wb))) = 1"
    "interactive_count (new_events wb (snd (getValidCredentials False wb))) = 0"
    by blast+
  from getValidCredentials_paths [of emptyWorld] c
  have rc: "getValidCredentials False emptyWorld
       = authenticateAndSaveCredentials (snd (loadCredentialsQuietly emptyWorld))"
    "interactive_count (new_events emptyWorld (snd (getValidCredentials False emptyWorld))) = 1"
    by blast+
  from getValidCredentials_paths [of wb] b
  have rd: "interactive_count (new_events wb (snd (getValidCredentials True wb))) = 0"
    by blast
  from getValidCredentials_paths [of emptyWorld] c
  have re: "interactive_count (new_events emptyWorld (snd (getValidCredentials True emptyWorld))) = 1"
    by blast
  from a b c ra rb rc rd re show ?thesis unfolding wa_def wb_def by blast
qed

subsection \<open>The interactive flow\<close>

text \<open>
  C7. When the interactive flow delivers a client in time,
  \<open>authenticateAndSaveCredentials\<close> attempts exactly one token refresh; if that refresh
  fails, it returns the client as the flow delivered it, the credential file is unchanged
  and nothing was written.
\<close>

theorem authenticateAndSaveCredentials_post_auth_refresh:
  assumes ok: "auth_settles w = Some (d, Resolved c)" and intime: "d < 30000"
  shows "refresh_count (new_events w (snd (authenticateAndSaveCredentials w))) = 1
    \<and> (refresh_answer w c = None \<longrightarrow>
          fst (authenticateAndSaveCredentials w) = Some (OAuth2 c)
        \<and> oauth_file (snd (authenticateAndSaveCredentials w)) = oauth_file w
        \<and> write_count (new_events w (snd (authenticateAndSaveCredentials w))) = 0)"
proof -
  have t: "d < defaultTimeoutMs" using intime by (simp add: defaultTimeoutMs_def)
  show ?thesis
  proof (cases "refresh_answer w c")
    case None
    show ?thesis
      by (simp add: auth_refresh_failed [OF ok t None] None new_events_append
          auth_prefix_def count_simps)
  next
    case (Some nc)
    show ?thesis
    proof (cases "mkdir_ok w \<or> oauth_file w \<noteq> None")
      case True
      show ?thesis
      proof (cases "write_ok w")
        case wr: True
        show ?thesis
          by (simp add: auth_saved [OF ok t Some True wr] Some new_events_append
              auth_prefix_def count_simps)
      next
        case wr: False
        show ?thesis
          by (simp add: auth_write_failed [OF ok t Some True wr] Some new_events_append
              auth_prefix_def count_simps)
      qed
    next
      case False
      show ?thesis
        by (simp add: auth_mkdir_failed [OF ok t Some False] Some new_events_append
            auth_prefix_def count_simps)
    qed
  qed
qed

theorem authenticateAndSaveCredentials_post_auth_refresh_witness:
  "auth_settles promptAuthWorld
     = Some (1000, Resolved exampleClient)
   \<and> (1000::nat) < 30000
   \<and> refresh_answer promptAuthWorld exampleClient = None
   \<and> refresh_count (new_events promptAuthWorld
        (snd (authenticateAndSaveCredentials promptAuthWorld))) = 1
   \<and> fst (authenticateAndSaveCredentials promptAuthWorld)
       = Some (OAuth2 exampleClient)
   \<and> oauth_file (snd (authenticateAndSaveCredentials promptAuthWorld))
       = None
   \<and> write_count (new_events promptAuthWorld
        (snd (authenticateAndSaveCredentials promptAuthWorld))) = 0"
proof -
  define w where "w = promptAuthWorld"
  have h1: "auth_settles w = Some (1000, Resolved exampleClient)" by (simp add: w_def promptAuthWorld_def)
  have h2: "(1000::nat) < 30000" by simp
  have h3: "refresh_answer w exampleClient = None"
    by (simp add: w_def refresh_answer_def promptAuthWorld_def emptyWorld_def)
  have f: "oauth_file w = None" by (simp add: w_def promptAuthWorld_def emptyWorld_def)
  from authenticateAndSaveCredentials_post_auth_refresh [OF h1 h2] h1 h2 h3 f
  show ?thesis unfolding w_def by simp
qed

text \<open>
  C6 (as amended). If the interactive flow exceeds its timeout (30000 ms by default) or
  rejects, the authentication attempt yields \<^verbatim>\<open>null\<close>. When the mode is \<open>OAUTH\<close> and
  the quiet load gives \<^verbatim>\<open>null\<close> too, \<open>startServer\<close> receives that \<^verbatim>\<open>null\<close>,
  installs it as the default handle and goes on to connect the transport: no error is
  raised for it, and the process exits (with code 1) exactly when connecting throws.
  When connecting succeeds the server runs with no default handle and the refresh timer
  started.
\<close>

theorem interactive_failure_at_startup:
  assumes fails: "interactive_fails w" and mode: "getAuthType w = OAUTH"
    and quiet: "fst (loadCredentialsQuietly w) = None"
  shows "fst (authenticateWithTimeout defaultTimeoutMs w) = None
    \<and> fst (getValidCredentials False w) = None
    \<and> SetDefaultAuth None \<in> set (new_events w (startServer w))
    \<and> Connect \<in> set (new_events w (startServer w))
    \<and> exited (startServer w) = (if connect_ok w then exited w else Some 1)
    \<and> (connect_ok w \<longrightarrow> default_auth (startServer w) = None
          \<and> timers (startServer w) = timers w @ [refreshIntervalMs])"
proof -
  have null: "fst (getValidCredentials False v) = None"
    if "interactive_fails v" "getAuthType v = OAUTH" "fst (loadCredentialsQuietly v) = None" for v
  proof -
    obtain fl es where "snd (loadCredentialsQuietly v) = v\<lparr>oauth_file := fl, trace := trace v @ es\<rparr>"
      by (rule quiet_frame)
    with that(1) have "interactive_fails (snd (loadCredentialsQuietly v))" by simp
    then show ?thesis by (simp add: gvc_oauth_fallback [OF that(3) that(2)] auth_null)
  qed
  define w2 where "w2 = console_error ''Using authentication method:'' (console_error ''Starting server'' w)"
  have "fst (getValidCredentials False w2) = None"
  proof (rule null)
    show "interactive_fails w2" using fails by (simp add: w2_def prim_defs)
    show "getAuthType w2 = OAUTH" using mode by (simp add: w2_def)
    show "fst (loadCredentialsQuietly w2) = None" using quiet by (simp add: w2_def quiet_logged)
  qed
  then obtain fl es where st: "startServer w =
      (let w3 = google_options None
                 (w\<lparr>oauth_file := fl,
                    trace := trace w @ Log ''Starting server'' # Log ''Using authentication method:'' # es\<rparr>)
       in if connect_ok w
          then (if getAuthType w = OAUTH then setupTokenRefresh (emit Connect w3) else emit Connect w3)
          else process_exit 1 (console_error ''Error starting server:'' (emit Connect w3)))"
    using startServer_outcome [of w] unfolding w2_def by metis
  have "SetDefaultAuth None \<in> set (new_events w (startServer w))"
    "Connect \<in> set (new_events w (startServer w))"
    "exited (startServer w) = (if connect_ok w then exited w else Some 1)"
    "connect_ok w \<longrightarrow> default_auth (startServer w) = None
          \<and> timers (startServer w) = timers w @ [refreshIntervalMs]"
    using mode by (simp_all add: st new_events_def setupTokenRefresh_def Let_def prim_defs)
  with timeout_null [OF fails] null [OF fails mode quiet] show ?thesis by simp
qed

theorem interactive_failure_at_startup_witness:
  "interactive_fails rejectingWorld
   \<and> getAuthType rejectingWorld = OAUTH
   \<and> fst (loadCredentialsQuietly rejectingWorld) = None
   \<and> fst (authenticateWithTimeout defaultTimeoutMs
          rejectingWorld) = None
   \<and> fst (getValidCredentials False rejectingWorld) = None
   \<and> connect_ok rejectingWorld
   \<and> exited (startServer rejectingWorld) = None
   \<and> default_auth (startServer rejectingWorld) = None
   \<and> timers (startServer rejectingWorld) = [2700000]"
proof -
  define w where "w = rejectingWorld"
  have h1: "interactive_fails w" by (simp add: w_def interactive_fails_def rejectingWorld_def emptyWorld_def)
  have h2: "getAuthType w = OAUTH" by (simp add: w_def eval_defs)
  have h3: "fst (loadCredentialsQuietly w) = None" by (simp add: w_def eval_defs)
  have f: "connect_ok w" "exited w = None" "timers w = []" by (simp_all add: w_def rejectingWorld_def emptyWorld_def)
  from interactive_failure_at_startup [OF h1 h2 h3] h1 h2 h3 f
  show ?thesis unfolding w_def by (simp add: refreshIntervalMs_def)
qed

text \<open>
  C6 as stated fails. Here the interactive flow would need 45000 ms, there is no
  credential file and no service-account key, and the transport connects:
  \<open>ensureAuth\<close> returns \<^verbatim>\<open>null\<close> to \<open>startServer\<close>, which does not exit but connects and
  starts the refresh timer.
\<close>

theorem startServer_survives_timeout:
  "auth_settles slowAuthWorld
     = Some (45000, Resolved exampleClient)
   \<and> defaultTimeoutMs < 45000
   \<and> fst (authenticateWithTimeout defaultTimeoutMs
          slowAuthWorld) = None
   \<and> fst (ensureAuth (console_error ''Using authentication method:'' (console_error ''Starting server''
          slowAuthWorld))) = None
   \<and> exited (startServer slowAuthWorld) = None
   \<and> Exit 1 \<notin> set (trace (startServer slowAuthWorld))
   \<and> Connect \<in> set (trace (startServer slowAuthWorld))
   \<and> timers (startServer slowAuthWorld) = [2700000]"
  by (simp add: eval_defs startServer_def startServer_try_def ensureAuth_def server_connect_def
      setupTokenRefresh_def refreshIntervalMs_def)

subsection \<open>The scheduled refresh\<close>

text \<open>
  C8. \<open>setupTokenRefresh\<close> schedules the tick every 45 minutes (2700000 ms). Every tick
  runs the quiet load and nothing else that has an effect: on a handle it installs the
  handle as the default and logs, on \<^verbatim>\<open>null\<close> it logs and leaves the default as it was.
  No tick starts the interactive flow and no tick exits the process. (The \<^verbatim>\<open>catch\<close>
  of the tick is not reached: the quiet load returns \<^verbatim>\<open>null\<close> instead of throwing.)
\<close>

theorem tokenRefreshTick_quiet:
  "(\<forall>h. fst (loadCredentialsQuietly (console_error ''Running scheduled token refresh check'' w)) = Some h \<longrightarrow>
      tokenRefreshTick w =
        console_error ''Completed scheduled token refresh''
          (google_options (Some h)
            (snd (loadCredentialsQuietly (console_error ''Running scheduled token refresh check'' w))))
      \<and> default_auth (tokenRefreshTick w) = Some h)
   \<and> (fst (loadCredentialsQuietly (console_error ''Running scheduled token refresh check'' w)) = None \<longrightarrow>
      tokenRefreshTick w =
        console_error ''Skipping token refresh - no valid credentials''
          (snd (loadCredentialsQuietly (console_error ''Running scheduled token refresh check'' w)))
      \<and> default_auth (tokenRefreshTick w) = default_auth w)
   \<and> interactive_count (new_events w (tokenRefreshTick w)) = 0
   \<and> exited (tokenRefreshTick w) = exited w
   \<and> timers (setupTokenRefresh w) = timers w @ [2700000]"
proof -
  define w0 where "w0 = console_error ''Running scheduled token refresh check'' w"
  define wq where "wq = snd (loadCredentialsQuietly w0)"
  obtain fl es where es: "wq = w0\<lparr>oauth_file := fl, trace := trace w0 @ es\<rparr>"
      "interactive_count es = 0"
    unfolding wq_def by (rule quiet_frame)
  have q: "loadCredentialsQuietly w0 = (fst (loadCredentialsQuietly w0), wq)"
    by (simp add: wq_def)
  have some: "tokenRefreshTick w =
      console_error ''Completed scheduled token refresh'' (google_options (Some h) wq)"
    if "fst (loadCredentialsQuietly w0) = Some h" for h
    using that q by (simp add: tokenRefreshTick_def w0_def [symmetric] split: prod.split)
  have none: "tokenRefreshTick w =
      console_error ''Skipping token refresh - no valid credentials'' wq"
    if "fst (loadCredentialsQuietly w0) = None"
    using that q by (simp add: tokenRefreshTick_def w0_def [symmetric] split: prod.split)
  have ic: "interactive_count (new_events w (tokenRefreshTick w)) = 0"
    and ex: "exited (tokenRefreshTick w) = exited w"
  proof -
    show "interactive_count (new_events w (tokenRefreshTick w)) = 0"
    proof (cases "fst (loadCredentialsQuietly w0)")
      case None
      have "trace (tokenRefreshTick w) = trace w @
          (Log ''Running scheduled token refresh check'' # es
            @ [Log ''Skipping token refresh - no valid credentials''])"
        by (simp add: none [OF None] es(1) w0_def prim_defs)
      then show ?thesis by (simp add: new_events_append count_simps2 count_app es)
    next
      case (Some h)
      have "trace (tokenRefreshTick w) = trace w @
          (Log ''Running scheduled token refresh check'' # es
            @ [SetDefaultAuth (Some h), Log ''Completed scheduled token refresh''])"
        by (simp add: some [OF Some] es(1) w0_def prim_defs)
      then show ?thesis by (simp add: new_events_append count_simps2 count_app es)
    qed
    show "exited (tokenRefreshTick w) = exited w"
    proof (cases "fst (loadCredentialsQuietly w0)")
      case None
      show ?thesis by (simp add: none [OF None] es(1) w0_def prim_defs)
    next
      case (Some h)
      show ?thesis by (simp add: some [OF Some] es(1) w0_def prim_defs)
    qed
  qed
  have da_some: "default_auth (tokenRefreshTick w) = Some h"
    if "fst (loadCredentialsQuietly w0) = Some h" for h
    by (simp add: some [OF that] prim_defs)
  have da_none: "default_auth (tokenRefreshTick w) = default_auth w"
    if "fst (loadCredentialsQuietly w0) = None"
    by (simp add: none [OF that] es(1) w0_def prim_defs)
  have tm: "timers (setupTokenRefresh w) = timers w @ [2700000]"
    by (simp add: setupTokenRefresh_def refreshIntervalMs_def prim_defs Let_def)
  show ?thesis
    using some none ic ex da_some da_none tm unfolding w0_def wq_def by blast
qed

theorem tokenRefreshTick_quiet_witness:
  "fst (loadCredentialsQuietly (console_error ''Running scheduled token refresh check''
          (worldWithFile freshCreds)))
     = Some (OAuth2 \<lparr>client_id = None, client_secret = None,
                       client_credentials = freshCreds\<rparr>)
   \<and> default_auth (tokenRefreshTick (worldWithFile freshCreds))
     = Some (OAuth2 \<lparr>client_id = None, client_secret = None,
                       client_credentials = freshCreds\<rparr>)
   \<and> fst (loadCredentialsQuietly (console_error ''Running scheduled token refresh check'' emptyWorld)) = None
   \<and> tokenRefreshTick emptyWorld =
        console_error ''Skipping token refresh - no valid credentials''
          (snd (loadCredentialsQuietly (console_error ''Running scheduled token refresh check'' emptyWorld)))
   \<and> default_auth (tokenRefreshTick emptyWorld) = None
   \<and> interactive_count (new_events emptyWorld (tokenRefreshTick emptyWorld)) = 0
   \<and> exited (tokenRefreshTick emptyWorld) = None"
proof -
  define wa where "wa = worldWithFile freshCreds"
  have a: "fst (loadCredentialsQuietly (console_error ''Running scheduled token refresh check'' wa))
     = Some (OAuth2 \<lparr>client_id = None, client_secret = None,
                       client_credentials = freshCreds\<rparr>)"
    by (simp add: wa_def eval_defs)
  have b: "fst (loadCredentialsQuietly (console_error ''Running scheduled token refresh check'' emptyWorld)) = None"
    by (simp add: eval_defs)
  have f: "default_auth emptyWorld = None" "exited emptyWorld = None" by (simp_all add: emptyWorld_def)
  from tokenRefreshTick_quiet [of wa] a
  have ra: "default_auth (tokenRefreshTick wa)
     = Some (OAuth2 \<lparr>client_id = None, client_secret = None,
                       client_credentials = freshCreds\<rparr>)"
    by blast
  from tokenRefreshTick_quiet [of emptyWorld] b
  have rb: "tokenRefreshTick emptyWorld =
        console_error ''Skipping token refresh - no valid credentials''
          (snd (loadCredentialsQuietly (console_error ''Running scheduled token refresh check'' emptyWorld)))"
    "default_auth (tokenRefreshTick emptyWorld) = default_auth emptyWorld"
    "interactive_count (new_events emptyWorld (tokenRefreshTick emptyWorld)) = 0"
    "exited (tokenRefreshTick emptyWorld) = exited emptyWorld"
    by blast+
  from a b ra rb f show ?thesis unfolding wa_def by metis
qed

end
